theory Spec2Isabelle
  imports Complex_Main "HOL-Library.Word" "HOL-Library.AList" "HOL-Library.List_Lexorder"
    "HOL-Library.Char_ord"
begin

section \<open>Go library functions used by the codecs\<close>

text \<open>
  Go strings are byte sequences; they are modelled as \<^typ>\<open>string\<close> (a list of 8-bit
  characters).  The functions of this section are the parts of the packages
  \<^verbatim>\<open>strings\<close>, \<^verbatim>\<open>strconv\<close> and \<^verbatim>\<open>fmt\<close> that the message codec calls.
\<close>

subsection \<open>Package strings\<close>

definition hasPrefix :: "string \<Rightarrow> string \<Rightarrow> bool" where
  "hasPrefix s pre = (length pre \<le> length s \<and> take (length pre) s = pre)"

definition hasSuffix :: "string \<Rightarrow> string \<Rightarrow> bool" where
  "hasSuffix s suf = (length suf \<le> length s \<and> drop (length s - length suf) s = suf)"

text \<open>\<^verbatim>\<open>strings.TrimPrefix\<close>: one copy of the prefix is removed when it is there.\<close>

definition trimPrefix :: "string \<Rightarrow> string \<Rightarrow> string" where
  "trimPrefix s pre = (if hasPrefix s pre then drop (length pre) s else s)"

text \<open>\<^verbatim>\<open>strings.TrimSuffix\<close>: one copy of the suffix is removed when it is there.\<close>

definition trimSuffix :: "string \<Rightarrow> string \<Rightarrow> string" where
  "trimSuffix s suf = (if hasSuffix s suf then take (length s - length suf) s else s)"

text \<open>\<^verbatim>\<open>strings.TrimLeft\<close>: every leading byte of the cutset is removed.\<close>

definition trimLeft :: "string \<Rightarrow> string \<Rightarrow> string" where
  "trimLeft s cutset = dropWhile (\<lambda>c. c \<in> set cutset) s"

text \<open>
  \<^verbatim>\<open>strings.Split\<close> with a one-byte separator: the loop of \<^verbatim>\<open>genSplit\<close> cuts at the
  first separator as long as there is one, and the rest is the last segment.
\<close>

function split :: "string \<Rightarrow> char \<Rightarrow> string list" where
  "split s sep =
     (if sep \<in> set s
      then takeWhile (\<lambda>c. c \<noteq> sep) s # split (tl (dropWhile (\<lambda>c. c \<noteq> sep) s)) sep
      else [s])"
  by pat_completeness auto
termination
proof (relation "measure (\<lambda>(s, sep). length s)")
  show "wf (measure (\<lambda>(s, sep). length s))"
    by simp
next
  fix s :: string and sep :: char
  assume "sep \<in> set s"
  then have "dropWhile (\<lambda>c. c \<noteq> sep) s \<noteq> []"
    by (auto simp: dropWhile_eq_Nil_conv)
  then have "length (tl (dropWhile (\<lambda>c. c \<noteq> sep) s)) < length (dropWhile (\<lambda>c. c \<noteq> sep) s)"
    by (cases "dropWhile (\<lambda>c. c \<noteq> sep) s") auto
  also have "\<dots> \<le> length s"
    by (rule length_dropWhile_le)
  finally show "((tl (dropWhile (\<lambda>c. c \<noteq> sep) s), sep), (s, sep)) \<in> measure (\<lambda>(s, sep). length s)"
    by simp
qed

declare split.simps [simp del]

subsection \<open>Package strconv\<close>

datatype numError = ErrSyntax | ErrRange

text \<open>
  The value of one digit as \<^verbatim>\<open>ParseUint\<close> reads it: decimal digits, then letters of either
  case from ten on.  The underscore is a digit separator only for base 0, which the codec
  never asks for.
\<close>

definition digitVal :: "char \<Rightarrow> nat option" where
  "digitVal c =
     (let n = (of_char c :: nat) in
      if 48 \<le> n \<and> n \<le> 57 then Some (n - 48)
      else if 97 \<le> n \<and> n \<le> 122 then Some (n - 97 + 10)
      else if 65 \<le> n \<and> n \<le> 90 then Some (n - 65 + 10)
      else None)"

text \<open>
  The digit loop of \<^verbatim>\<open>ParseUint\<close> on the 64-bit accumulator \<open>n\<close>: a byte that is no
  digit of the base is a syntax error; the value leaving 64 bits, or exceeding the largest
  value of the bit size, is a range error.
\<close>

fun parseUintLoop :: "nat \<Rightarrow> nat \<Rightarrow> nat \<Rightarrow> string \<Rightarrow> numError + nat" where
  "parseUintLoop base maxVal n [] = Inr n"
| "parseUintLoop base maxVal n (c # cs) =
     (case digitVal c of
        None \<Rightarrow> Inl ErrSyntax
      | Some d \<Rightarrow>
          if d \<ge> base then Inl ErrSyntax
          else if n \<ge> (2 ^ 64 - 1) div base + 1 then Inl ErrRange
          else if n * base + d \<ge> 2 ^ 64 \<or> n * base + d > maxVal then Inl ErrRange
          else parseUintLoop base maxVal (n * base + d) cs)"

definition parseUint :: "string \<Rightarrow> nat \<Rightarrow> nat \<Rightarrow> numError + nat" where
  "parseUint s base bitSize =
     (if s = [] then Inl ErrSyntax else parseUintLoop base (2 ^ bitSize - 1) 0 s)"

text \<open>
  \<^verbatim>\<open>strconv.ParseInt(s, base, bitSize)\<close> for an explicit base and bit size: an optional
  sign, then the unsigned value, then the check of the signed range.  After a range error
  of \<^verbatim>\<open>ParseUint\<close> the value is the largest unsigned one, which fails the signed check,
  so the range error is passed on.
\<close>

definition parseInt :: "string \<Rightarrow> nat \<Rightarrow> nat \<Rightarrow> numError + int" where
  "parseInt s base bitSize =
     (if s = [] then Inl ErrSyntax
      else
        let neg = (hd s = CHR ''-'');
            body = (if hd s = CHR ''+'' \<or> hd s = CHR ''-'' then tl s else s)
        in
          case parseUint body base bitSize of
            Inl e \<Rightarrow> Inl e
          | Inr un \<Rightarrow>
              let cutoff = (2::nat) ^ (bitSize - 1)
              in
                if \<not> neg \<and> un \<ge> cutoff then Inl ErrRange
                else if neg \<and> un > cutoff then Inl ErrRange
                else Inr (if neg then - int un else int un))"

subsection \<open>Package fmt\<close>

text \<open>The digit table of package fmt (\<^verbatim>\<open>udigits\<close>), read for digits below sixteen.\<close>

definition digitChar :: "nat \<Rightarrow> char" where
  "digitChar d = ''0123456789ABCDEF'' ! d"

text \<open>The digits of a natural number in a base, most significant first, upper case.\<close>

fun natDigits :: "nat \<Rightarrow> nat \<Rightarrow> string" where
  "natDigits base n =
     (if base < 2 \<or> n < base then [digitChar n]
      else natDigits base (n div base) @ [digitChar (n mod base)])"

declare natDigits.simps [simp del]

text \<open>The verb \<^verbatim>\<open>%d\<close>.\<close>

definition fmt_d :: "int \<Rightarrow> string" where
  "fmt_d n = (if n < 0 then CHR ''-'' # natDigits 10 (nat (- n)) else natDigits 10 (nat n))"

text \<open>The verb \<^verbatim>\<open>%09d\<close>: zeros fill the width of nine after the sign.\<close>

definition fmt_09d :: "int \<Rightarrow> string" where
  "fmt_09d n =
     (if n < 0
      then CHR ''-'' # replicate (8 - length (natDigits 10 (nat (- n)))) (CHR ''0'')
             @ natDigits 10 (nat (- n))
      else replicate (9 - length (natDigits 10 (nat n))) (CHR ''0'') @ natDigits 10 (nat n))"

text \<open>The verb \<^verbatim>\<open>%X\<close>: upper-case hexadecimal, no padding.\<close>

definition fmt_X :: "int \<Rightarrow> string" where
  "fmt_X n = (if n < 0 then CHR ''-'' # natDigits 16 (nat (- n)) else natDigits 16 (nat n))"

section \<open>Errors\<close>

text \<open>
  Every \<^verbatim>\<open>errors.New\<close> and \<^verbatim>\<open>fmt.Errorf\<close> of the package is one constructor, with the
  values its message quotes.  Where the message quotes a key found by ranging over a Go map,
  whose order is not fixed, the key is left out.  \<open>JSONError\<close> stands for the errors of
  \<^verbatim>\<open>encoding/json\<close> itself.
\<close>

datatype error =
    SegmentsError string
  | ParseError string numError
  | JSONError
  | AlertUnmarshalError
  | SoundUnmarshalError
  | MessageNil
  | TargetsError
  | MalformedTopic
  | URLError
  | InvalidImageURL string
  | TTLNegative
  | PriorityInvalid
  | ColorForm
  | TitleLocKeyRequired
  | BodyLocKeyRequired
  | VibrateNegative
  | LightColorForm
  | LightOnNegative
  | LightOffNegative
  | MultipleSpecifications
  | MultipleAlert
  | MultipleSound
  | CriticalVolume
  | SubtitleLocKeyRequired
  | LocKeyRequired
  | DirectionInvalid
  | InvalidLinkURL string
  | InvalidLinkScheme string

text \<open>
  A function that indexes a string can also panic; its outcome is the panic, the error it
  returns, or its value.
\<close>

datatype 'a outcome = Panic | Failed error | Value 'a

section \<open>Duration micro-format\<close>

text \<open>
  \<^verbatim>\<open>time.Duration\<close> is an \<^verbatim>\<open>int64\<close> count of nanoseconds, and \<^verbatim>\<open>time.Second\<close> is
  \<open>1000000000\<close>.  Go's \<^verbatim>\<open>/\<close> on integers truncates towards zero.
\<close>

type_synonym duration = "64 word"

definition goQuot :: "int \<Rightarrow> int \<Rightarrow> int" where
  "goQuot a b = sgn a * sgn b * (\<bar>a\<bar> div \<bar>b\<bar>)"

text \<open>
  \<^verbatim>\<open>durationToString\<close>.  The quotient and the remainder of a 64-bit value by
  \<open>10^9\<close> are within 64 bits, so they are computed on the signed value of the word.
\<close>

definition durationToString :: "duration \<Rightarrow> string" where
  "durationToString ms =
     (let seconds = goQuot (sint ms) 1000000000;
          nanos = sint ms - seconds * 1000000000
      in
        if nanos > 0 then fmt_d seconds @ ''.'' @ fmt_09d nanos @ ''s''
        else fmt_d seconds @ ''s'')"

text \<open>
  \<^verbatim>\<open>stringToDuration\<close>.  The product with \<^verbatim>\<open>time.Second\<close> and the sum are 64-bit
  operations and wrap around.
\<close>

definition stringToDuration :: "string \<Rightarrow> error + duration" where
  "stringToDuration s =
     (let segments = split (trimSuffix s ''s'') (CHR ''.'')
      in
        if length segments \<noteq> 1 \<and> length segments \<noteq> 2 then Inl (SegmentsError s)
        else
          case parseInt (segments ! 0) 10 64 of
            Inl e \<Rightarrow> Inl (ParseError s e)
          | Inr seconds \<Rightarrow>
              let ttl = (word_of_int seconds :: duration) * 1000000000
              in
                if length segments = 2 then
                  (case parseInt (trimLeft (segments ! 1) ''0'') 10 64 of
                     Inl e \<Rightarrow> Inl (ParseError s e)
                   | Inr nanos \<Rightarrow> Inr (ttl + word_of_int nanos))
                else Inr ttl)"

subsection \<open>The decoding rule as the specification words it\<close>

text \<open>\<^verbatim>\<open>strings.TrimRight\<close>: every trailing byte of the cutset is removed.\<close>

definition trimRight :: "string \<Rightarrow> string \<Rightarrow> string" where
  "trimRight s cutset = rev (dropWhile (\<lambda>c. c \<in> set cutset) (rev s))"

text \<open>
  The specification's decoding rule for durations, for comparison with
  \<^const>\<open>stringToDuration\<close>: it is the same procedure, except that the second segment is
  parsed \<^emph>\<open>after stripping trailing zeros\<close>.
\<close>

definition stringToDuration_spec :: "string \<Rightarrow> error + duration" where
  "stringToDuration_spec s =
     (let segments = split (trimSuffix s ''s'') (CHR ''.'')
      in
        if length segments \<noteq> 1 \<and> length segments \<noteq> 2 then Inl (SegmentsError s)
        else
          case parseInt (segments ! 0) 10 64 of
            Inl e \<Rightarrow> Inl (ParseError s e)
          | Inr seconds \<Rightarrow>
              let ttl = (word_of_int seconds :: duration) * 1000000000
              in
                if length segments = 2 then
                  (case parseInt (trimRight (segments ! 1) ''0'') 10 64 of
                     Inl e \<Rightarrow> Inl (ParseError s e)
                   | Inr nanos \<Rightarrow> Inr (ttl + word_of_int nanos))
                else Inr ttl)"

section \<open>Wire documents\<close>

text \<open>
  A wire document is a JSON value.  The members of an object are kept in the order of the
  text, repeated names included, since \<^verbatim>\<open>encoding/json\<close> reads them in that order.
  \<open>JInt\<close> is a number written without fraction and exponent, \<open>JFloat\<close> any other number;
  only the former can be read into a Go integer.  A \<^verbatim>\<open>float64\<close> is modelled by the real
  number it denotes, and a string by its bytes.  A value of type \<^verbatim>\<open>any\<close> is modelled by the
  JSON value it is written as.
\<close>

datatype json =
    JNull
  | JBool bool
  | JInt int
  | JFloat real
  | JStr string
  | JArr "json list"
  | JObj "(string \<times> json) list"

type_synonym int64 = "64 word"

text \<open>
  A Go map is an association list with one entry for each key; the \<^verbatim>\<open>nil\<close> map and the
  empty map are both the empty list.  \<^verbatim>\<open>m[k] = v\<close> is \<^const>\<open>AList.update\<close>,
  \<^verbatim>\<open>delete(m, k)\<close> is \<^const>\<open>AList.delete\<close>, \<^verbatim>\<open>maps.Copy(dst, src)\<close> is
  \<^const>\<open>AList.merge\<close>, and a lookup is \<^const>\<open>map_of\<close>.
\<close>

type_synonym 'v gomap = "(string \<times> 'v) list"

subsection \<open>Encoding of the basic types\<close>

text \<open>\<^verbatim>\<open>encoding/json\<close> writes the keys of a map in sorted order.\<close>

definition marshalMap :: "json gomap \<Rightarrow> json" where
  "marshalMap m = JObj (sort_key fst m)"

definition marshalStringMap :: "string gomap \<Rightarrow> json" where
  "marshalStringMap m = marshalMap (map (\<lambda>(k, v). (k, JStr v)) m)"

text \<open>
  A \<^verbatim>\<open>float64\<close> of integral value below \<open>10^21\<close> is written without fraction and
  exponent.
\<close>

definition marshalFloat :: "real \<Rightarrow> json" where
  "marshalFloat r = (if r \<in> \<int> \<and> \<bar>r\<bar> < 10 ^ 21 then JInt \<lfloor>r\<rfloor> else JFloat r)"

text \<open>Struct fields tagged \<^verbatim>\<open>omitempty\<close>: the member is left out for the zero value.\<close>

definition omitString :: "string \<Rightarrow> string \<Rightarrow> (string \<times> json) list" where
  "omitString key v = (if v = [] then [] else [(key, JStr v)])"

definition omitBool :: "string \<Rightarrow> bool \<Rightarrow> (string \<times> json) list" where
  "omitBool key v = (if v then [(key, JBool True)] else [])"

definition omitInt :: "string \<Rightarrow> int64 \<Rightarrow> (string \<times> json) list" where
  "omitInt key v = (if v = 0 then [] else [(key, JInt (sint v))])"

definition omitFloat :: "string \<Rightarrow> real \<Rightarrow> (string \<times> json) list" where
  "omitFloat key v = (if v = 0 then [] else [(key, marshalFloat v)])"

definition omitStrings :: "string \<Rightarrow> string list \<Rightarrow> (string \<times> json) list" where
  "omitStrings key vs = (if vs = [] then [] else [(key, JArr (map JStr vs))])"

definition omitStringMap :: "string \<Rightarrow> string gomap \<Rightarrow> (string \<times> json) list" where
  "omitStringMap key m = (if m = [] then [] else [(key, marshalStringMap m)])"

definition omitPtr :: "string \<Rightarrow> ('a \<Rightarrow> json) \<Rightarrow> 'a option \<Rightarrow> (string \<times> json) list" where
  "omitPtr key enc v = (case v of None \<Rightarrow> [] | Some x \<Rightarrow> [(key, enc x)])"

section \<open>The message and its blocks\<close>

text \<open>
  Each struct of the package is a record with the struct's fields in their order.  A
  pointer that may be \<^verbatim>\<open>nil\<close> is an option, a slice is a list (the \<^verbatim>\<open>nil\<close> slice
  is the empty list), \<^verbatim>\<open>int\<close> and \<^verbatim>\<open>int64\<close> are 64-bit words.
\<close>

typedecl time \<comment> \<open>the values of \<^verbatim>\<open>time.Time\<close>\<close>

record Notification =
  Title :: string
  Body :: string
  ImageURL :: string

record LightSettings =
  Color :: string
  LightOnDurationMillis :: int64
  LightOffDurationMillis :: int64

record AndroidFCMOptions =
  AnalyticsLabel :: string

record AndroidNotification =
  Title :: string
  Body :: string
  Icon :: string
  Color :: string
  Sound :: string
  Tag :: string
  ClickAction :: string
  BodyLocKey :: string
  BodyLocArgs :: "string list"
  TitleLocKey :: string
  TitleLocArgs :: "string list"
  ChannelID :: string
  Ticker :: string
  Sticky :: bool
  EventTimestamp :: "time option"
  LocalOnly :: bool
  Priority :: int64
  DefaultSound :: bool
  DefaultVibrateTimings :: bool
  DefaultLightSettings :: bool
  VibrateTimingMillis :: "int64 list"
  Visibility :: int64
  NotificationCount :: "int64 option"
  LightSettings :: "LightSettings option"
  ImageURL :: string
  Proxy :: int64

record AndroidConfig =
  CollapseKey :: string
  Priority :: string
  TTL :: "duration option"
  RestrictedPackageName :: string
  Data :: "string gomap"
  Notification :: "AndroidNotification option"
  FCMOptions :: "AndroidFCMOptions option"
  DirectBootOK :: bool

record WebpushNotificationAction =
  Action :: string
  Title :: string
  Icon :: string

record WebpushNotification =
  Actions :: "WebpushNotificationAction option list"
  Title :: string
  Body :: string
  Icon :: string
  Badge :: string
  Direction :: string
  Data :: "json option"
  Image :: string
  Language :: string
  Renotify :: bool
  RequireInteraction :: bool
  Silent :: bool
  Tag :: string
  TimestampMillis :: "int64 option"
  Vibrate :: "int64 list"
  CustomData :: "json gomap"

record WebpushFCMOptions =
  Link :: string

record WebpushConfig =
  Headers :: "string gomap"
  Data :: "string gomap"
  Notification :: "WebpushNotification option"
  FCMOptions :: "WebpushFCMOptions option"

record ApsAlert =
  Title :: string
  SubTitle :: string
  Body :: string
  LocKey :: string
  LocArgs :: "string list"
  TitleLocKey :: string
  TitleLocArgs :: "string list"
  SubTitleLocKey :: string
  SubTitleLocArgs :: "string list"
  ActionLocKey :: string
  LaunchImage :: string

record CriticalSound =
  Critical :: bool
  Name :: string
  Volume :: real

record Aps =
  AlertString :: string
  Alert :: "ApsAlert option"
  Badge :: "int64 option"
  Sound :: string
  CriticalSound :: "CriticalSound option"
  ContentAvailable :: bool
  MutableContent :: bool
  Category :: string
  ThreadID :: string
  CustomData :: "json gomap"

record APNSPayload =
  Aps :: "Aps option"
  CustomData :: "json gomap"

record APNSFCMOptions =
  AnalyticsLabel :: string
  ImageURL :: string

record APNSConfig =
  Headers :: "string gomap"
  Payload :: "APNSPayload option"
  FCMOptions :: "APNSFCMOptions option"
  LiveActivityToken :: string

record FCMOptions =
  AnalyticsLabel :: string

record Message =
  Data :: "string gomap"
  Notification :: "Notification option"
  Android :: "AndroidConfig option"
  Webpush :: "WebpushConfig option"
  APNS :: "APNSConfig option"
  FCMOptions :: "FCMOptions option"
  Token :: string
  Topic :: string
  Condition :: string

section \<open>Encoding of the extensible records\<close>

text \<open>Plain structs are written field by field, the empty fields left out.\<close>

definition WebpushNotificationAction_json :: "WebpushNotificationAction \<Rightarrow> json" where
  "WebpushNotificationAction_json a =
     JObj (omitString ''action'' (Action a)
         @ omitString ''title'' (WebpushNotificationAction.Title a)
         @ omitString ''icon'' (WebpushNotificationAction.Icon a))"

definition ApsAlert_json :: "ApsAlert \<Rightarrow> json" where
  "ApsAlert_json a =
     JObj (omitString ''title'' (ApsAlert.Title a)
         @ omitString ''subtitle'' (SubTitle a)
         @ omitString ''body'' (ApsAlert.Body a)
         @ omitString ''loc-key'' (LocKey a)
         @ omitStrings ''loc-args'' (LocArgs a)
         @ omitString ''title-loc-key'' (ApsAlert.TitleLocKey a)
         @ omitStrings ''title-loc-args'' (ApsAlert.TitleLocArgs a)
         @ omitString ''subtitle-loc-key'' (SubTitleLocKey a)
         @ omitStrings ''subtitle-loc-args'' (SubTitleLocArgs a)
         @ omitString ''action-loc-key'' (ActionLocKey a)
         @ omitString ''launch-image'' (LaunchImage a))"

text \<open>\<^verbatim>\<open>CriticalSound.MarshalJSON\<close>: the flag is written as the integer 1, or left out.\<close>

definition CriticalSound_MarshalJSON :: "CriticalSound \<Rightarrow> json" where
  "CriticalSound_MarshalJSON cs =
     JObj (omitInt ''critical'' (if Critical cs then 1 else 0)
         @ omitString ''name'' (Name cs)
         @ omitFloat ''volume'' (Volume cs))"

text \<open>
  The closures \<^verbatim>\<open>addNonEmpty\<close> and \<^verbatim>\<open>addTrue\<close> of \<^verbatim>\<open>standardFields\<close>.  Each key
  is set at most once, so the map is the list of the entries set, in the order of the code.
\<close>

definition addNonEmpty :: "string \<Rightarrow> string \<Rightarrow> json gomap" where
  "addNonEmpty key v = (if v \<noteq> [] then [(key, JStr v)] else [])"

definition addTrue :: "string \<Rightarrow> bool \<Rightarrow> json gomap" where
  "addTrue key v = (if v then [(key, JBool v)] else [])"

text \<open>\<^verbatim>\<open>WebpushNotification.standardFields\<close>\<close>

definition WebpushNotification_standardFields :: "WebpushNotification \<Rightarrow> json gomap" where
  "WebpushNotification_standardFields n =
     (if length (Actions n) > 0
      then [(''actions'',
             JArr (map (\<lambda>a. case a of None \<Rightarrow> JNull | Some x \<Rightarrow> WebpushNotificationAction_json x)
               (Actions n)))]
      else [])
     @ addNonEmpty ''title'' (WebpushNotification.Title n)
     @ addNonEmpty ''body'' (WebpushNotification.Body n)
     @ addNonEmpty ''icon'' (WebpushNotification.Icon n)
     @ addNonEmpty ''badge'' (WebpushNotification.Badge n)
     @ addNonEmpty ''dir'' (Direction n)
     @ addNonEmpty ''image'' (Image n)
     @ addNonEmpty ''lang'' (Language n)
     @ addTrue ''renotify'' (Renotify n)
     @ addTrue ''requireInteraction'' (RequireInteraction n)
     @ addTrue ''silent'' (Silent n)
     @ addNonEmpty ''tag'' (WebpushNotification.Tag n)
     @ (case WebpushNotification.Data n of None \<Rightarrow> [] | Some d \<Rightarrow> [(''data'', d)])
     @ (case TimestampMillis n of None \<Rightarrow> [] | Some t \<Rightarrow> [(''timestamp'', JInt (sint t))])
     @ (if length (Vibrate n) > 0
        then [(''vibrate'', JArr (map (\<lambda>v. JInt (sint v)) (Vibrate n)))]
        else [])"

text \<open>\<^verbatim>\<open>WebpushNotification.MarshalJSON\<close>: the custom data is laid over the standard fields.\<close>

definition WebpushNotification_MarshalJSON :: "WebpushNotification \<Rightarrow> json" where
  "WebpushNotification_MarshalJSON n =
     marshalMap (AList.merge (WebpushNotification_standardFields n) (WebpushNotification.CustomData n))"

text \<open>\<^verbatim>\<open>Aps.standardFields\<close>\<close>

definition Aps_standardFields :: "Aps \<Rightarrow> json gomap" where
  "Aps_standardFields a =
     (case Alert a of
        Some al \<Rightarrow> [(''alert'', ApsAlert_json al)]
      | None \<Rightarrow> if AlertString a \<noteq> [] then [(''alert'', JStr (AlertString a))] else [])
     @ (if ContentAvailable a then [(''content-available'', JInt 1)] else [])
     @ (if MutableContent a then [(''mutable-content'', JInt 1)] else [])
     @ (case Aps.Badge a of None \<Rightarrow> [] | Some b \<Rightarrow> [(''badge'', JInt (sint b))])
     @ (case Aps.CriticalSound a of
          Some cs \<Rightarrow> [(''sound'', CriticalSound_MarshalJSON cs)]
        | None \<Rightarrow> if Aps.Sound a \<noteq> [] then [(''sound'', JStr (Aps.Sound a))] else [])
     @ (if Category a \<noteq> [] then [(''category'', JStr (Category a))] else [])
     @ (if ThreadID a \<noteq> [] then [(''thread-id'', JStr (ThreadID a))] else [])"

text \<open>\<^verbatim>\<open>Aps.MarshalJSON\<close>\<close>

definition Aps_MarshalJSON :: "Aps \<Rightarrow> json" where
  "Aps_MarshalJSON a = marshalMap (AList.merge (Aps_standardFields a) (Aps.CustomData a))"

text \<open>
  \<^verbatim>\<open>APNSPayload.standardFields\<close>: the key \<open>aps\<close> is always there, with \<open>null\<close> for a
  \<^verbatim>\<open>nil\<close> dictionary.
\<close>

definition APNSPayload_standardFields :: "APNSPayload \<Rightarrow> json gomap" where
  "APNSPayload_standardFields p =
     [(''aps'', case APNSPayload.Aps p of None \<Rightarrow> JNull | Some a \<Rightarrow> Aps_MarshalJSON a)]"

definition APNSPayload_MarshalJSON :: "APNSPayload \<Rightarrow> json" where
  "APNSPayload_MarshalJSON p =
     marshalMap (AList.merge (APNSPayload_standardFields p) (APNSPayload.CustomData p))"

section \<open>Colour micro-format and light settings\<close>

record color =
  Red :: real
  Green :: real
  Blue :: real
  Alpha :: real

text \<open>
  The slice expression \<^verbatim>\<open>s[lo:hi]\<close> on a string: it panics unless
  \<open>lo \<le> hi \<le> len(s)\<close>; \<open>None\<close> is the panic.
\<close>

definition goSlice :: "string \<Rightarrow> nat \<Rightarrow> nat \<Rightarrow> string option" where
  "goSlice s lo hi = (if lo \<le> hi \<and> hi \<le> length s then Some (take (hi - lo) (drop lo s)) else None)"

text \<open>\<^verbatim>\<open>newColor\<close>\<close>

definition newColor :: "string \<Rightarrow> color outcome" where
  "newColor clr =
     (case goSlice clr 1 3 of
        None \<Rightarrow> Panic
      | Some rr \<Rightarrow>
     (case parseInt rr 16 32 of
        Inl err \<Rightarrow> Failed (ParseError clr err)
      | Inr red \<Rightarrow>
     (case goSlice clr 3 5 of
        None \<Rightarrow> Panic
      | Some gg \<Rightarrow>
     (case parseInt gg 16 32 of
        Inl err \<Rightarrow> Failed (ParseError clr err)
      | Inr green \<Rightarrow>
     (case goSlice clr 5 7 of
        None \<Rightarrow> Panic
      | Some bb \<Rightarrow>
     (case parseInt bb 16 32 of
        Inl err \<Rightarrow> Failed (ParseError clr err)
      | Inr blue \<Rightarrow>
          if length clr = 9 then
            (case goSlice clr 7 9 of
               None \<Rightarrow> Panic
             | Some aa \<Rightarrow>
            (case parseInt aa 16 32 of
               Inl err \<Rightarrow> Failed (ParseError clr err)
             | Inr alpha \<Rightarrow>
                 Value \<lparr>Red = real_of_int red / 255, Green = real_of_int green / 255,
                        Blue = real_of_int blue / 255, Alpha = real_of_int alpha / 255\<rparr>))
          else
            Value \<lparr>Red = real_of_int red / 255, Green = real_of_int green / 255,
                   Blue = real_of_int blue / 255, Alpha = 255 / 255\<rparr>))))))"

text \<open>The conversion \<^verbatim>\<open>int(x)\<close> of a floating-point number drops the fraction.\<close>

definition goInt :: "real \<Rightarrow> int" where
  "goInt x = (if x \<ge> 0 then \<lfloor>x\<rfloor> else \<lceil>x\<rceil>)"

text \<open>\<^verbatim>\<open>color.toString\<close>\<close>

definition toString :: "color \<Rightarrow> string" where
  "toString c =
     (let red = goInt (Red c * 255);
          green = goInt (Green c * 255);
          blue = goInt (Blue c * 255);
          alpha = goInt (Alpha c * 255)
      in
        if alpha = 255 then ''#'' @ fmt_X red @ fmt_X green @ fmt_X blue
        else ''#'' @ fmt_X red @ fmt_X green @ fmt_X blue @ fmt_X alpha)"

definition color_json :: "color \<Rightarrow> json" where
  "color_json c =
     JObj [(''red'', marshalFloat (Red c)), (''green'', marshalFloat (Green c)),
           (''blue'', marshalFloat (Blue c)), (''alpha'', marshalFloat (Alpha c))]"

text \<open>
  \<^verbatim>\<open>LightSettings.MarshalJSON\<close>.  \<^verbatim>\<open>time.Millisecond\<close> is \<open>1000000\<close>, and the product
  is a 64-bit one.
\<close>

definition LightSettings_MarshalJSON :: "LightSettings \<Rightarrow> json outcome" where
  "LightSettings_MarshalJSON l =
     (case newColor (LightSettings.Color l) of
        Panic \<Rightarrow> Panic
      | Failed err \<Rightarrow> Failed err
      | Value clr \<Rightarrow>
          Value (JObj
            [(''color'', color_json clr),
             (''light_on_duration'', JStr (durationToString (LightOnDurationMillis l * 1000000))),
             (''light_off_duration'', JStr (durationToString (LightOffDurationMillis l * 1000000)))]))"

section \<open>Zero values\<close>

definition emptyMessage :: Message where
  "emptyMessage =
     \<lparr>Message.Data = [], Notification = None, Android = None, Webpush = None, APNS = None,
      FCMOptions = None, Token = [], Topic = [], Condition = []\<rparr>"

definition emptyWebpushNotification :: WebpushNotification where
  "emptyWebpushNotification =
     \<lparr>Actions = [], Title = [], Body = [], Icon = [], Badge = [], Direction = [], Data = None,
      Image = [], Language = [], Renotify = False, RequireInteraction = False, Silent = False,
      Tag = [], TimestampMillis = None, Vibrate = [], CustomData = []\<rparr>"

definition emptyWebpushConfig :: WebpushConfig where
  "emptyWebpushConfig =
     \<lparr>WebpushConfig.Headers = [], Data = [], Notification = None, FCMOptions = None\<rparr>"

definition emptyApsAlert :: ApsAlert where
  "emptyApsAlert =
     \<lparr>ApsAlert.Title = [], SubTitle = [], Body = [], LocKey = [], LocArgs = [], TitleLocKey = [],
      TitleLocArgs = [], SubTitleLocKey = [], SubTitleLocArgs = [], ActionLocKey = [],
      LaunchImage = []\<rparr>"

definition emptyCriticalSound :: CriticalSound where
  "emptyCriticalSound = \<lparr>Critical = False, Name = [], Volume = 0\<rparr>"

definition emptyAps :: Aps where
  "emptyAps =
     \<lparr>AlertString = [], Alert = None, Badge = None, Sound = [], CriticalSound = None,
      ContentAvailable = False, MutableContent = False, Category = [], ThreadID = [],
      CustomData = []\<rparr>"

section \<open>Validation\<close>

text \<open>
  \<^verbatim>\<open>url.ParseRequestURI\<close> belongs to the Go library; the validation takes it as the
  parameter \<open>parse\<close>, which gives the parsed URL or fails.
\<close>

record URL =
  Scheme :: string
  Opaque :: string
  Host :: string
  Path :: string
  RawQuery :: string

type_synonym urlParser = "string \<Rightarrow> URL option"

text \<open>
  The three patterns.  \<^verbatim>\<open>^[a-zA-Z0-9-_.~%]+$\<close> matches the non-empty strings of
  letters, digits and the five signs; \<^verbatim>\<open>^#[0-9a-fA-F]{6}$\<close> a number sign and six
  hexadecimal digits; \<^verbatim>\<open>^#[0-9a-fA-F]{6}([0-9a-fA-F]{2})?$\<close> a number sign and six or
  eight of them.
\<close>

definition isAlnum :: "char \<Rightarrow> bool" where
  "isAlnum c =
     (let n = (of_char c :: nat)
      in (97 \<le> n \<and> n \<le> 122) \<or> (65 \<le> n \<and> n \<le> 90) \<or> (48 \<le> n \<and> n \<le> 57))"

definition isHex :: "char \<Rightarrow> bool" where
  "isHex c =
     (let n = (of_char c :: nat)
      in (48 \<le> n \<and> n \<le> 57) \<or> (97 \<le> n \<and> n \<le> 102) \<or> (65 \<le> n \<and> n \<le> 70))"

definition bareTopicNamePattern :: "string \<Rightarrow> bool" where
  "bareTopicNamePattern s = (s \<noteq> [] \<and> list_all (\<lambda>c. isAlnum c \<or> c \<in> set ''-_.~%'') s)"

definition colorPattern :: "string \<Rightarrow> bool" where
  "colorPattern s = (length s = 7 \<and> hd s = CHR ''#'' \<and> list_all isHex (tl s))"

definition colorWithAlphaPattern :: "string \<Rightarrow> bool" where
  "colorWithAlphaPattern s =
     ((length s = 7 \<or> length s = 9) \<and> hd s = CHR ''#'' \<and> list_all isHex (tl s))"

text \<open>\<^verbatim>\<open>countNonEmpty\<close>: the loop over the arguments with its counter.\<close>

definition countNonEmpty :: "string list \<Rightarrow> int" where
  "countNonEmpty ss = foldl (\<lambda>count s. if s \<noteq> [] then count + 1 else count) 0 ss"

definition isValidURL :: "urlParser \<Rightarrow> string \<Rightarrow> error option" where
  "isValidURL parse link = (case parse link of None \<Rightarrow> Some URLError | Some u \<Rightarrow> None)"

definition validateNotification :: "urlParser \<Rightarrow> Notification option \<Rightarrow> error option" where
  "validateNotification parse notification =
     (case notification of
        None \<Rightarrow> None
      | Some n \<Rightarrow>
          let image = Notification.ImageURL n
          in if image \<noteq> [] \<and> isValidURL parse image \<noteq> None then Some (InvalidImageURL image)
             else None)"

definition validateLightSettings :: "LightSettings option \<Rightarrow> error option" where
  "validateLightSettings light =
     (case light of
        None \<Rightarrow> None
      | Some l \<Rightarrow>
          if \<not> colorWithAlphaPattern (LightSettings.Color l) then Some LightColorForm
          else if sint (LightOnDurationMillis l) < 0 then Some LightOnNegative
          else if sint (LightOffDurationMillis l) < 0 then Some LightOffNegative
          else None)"

definition validateAndroidNotification ::
    "urlParser \<Rightarrow> AndroidNotification option \<Rightarrow> error option" where
  "validateAndroidNotification parse notification =
     (case notification of
        None \<Rightarrow> None
      | Some n \<Rightarrow>
          if AndroidNotification.Color n \<noteq> [] \<and> \<not> colorPattern (AndroidNotification.Color n)
          then Some ColorForm
          else if length (AndroidNotification.TitleLocArgs n) > 0
                  \<and> AndroidNotification.TitleLocKey n = []
          then Some TitleLocKeyRequired
          else if length (BodyLocArgs n) > 0 \<and> BodyLocKey n = []
          then Some BodyLocKeyRequired
          else
            let image = AndroidNotification.ImageURL n
            in if image \<noteq> [] \<and> isValidURL parse image \<noteq> None then Some (InvalidImageURL image)
               else if list_ex (\<lambda>timing. sint timing < 0) (VibrateTimingMillis n)
               then Some VibrateNegative
               else validateLightSettings (AndroidNotification.LightSettings n))"

text \<open>
  \<^verbatim>\<open>Duration.Seconds\<close> is the sum of the whole seconds and of the remaining nanoseconds
  over \<open>10^9\<close>, both of the sign of the duration: it is negative exactly when the duration
  is.
\<close>

definition validateAndroidConfig :: "urlParser \<Rightarrow> AndroidConfig option \<Rightarrow> error option" where
  "validateAndroidConfig parse config =
     (case config of
        None \<Rightarrow> None
      | Some c \<Rightarrow>
          if (case TTL c of None \<Rightarrow> False | Some ttl \<Rightarrow> sint ttl < 0) then Some TTLNegative
          else if AndroidConfig.Priority c \<noteq> [] \<and> AndroidConfig.Priority c \<noteq> ''normal''
                  \<and> AndroidConfig.Priority c \<noteq> ''high''
          then Some PriorityInvalid
          else validateAndroidNotification parse (AndroidConfig.Notification c))"

text \<open>
  The loops \<^verbatim>\<open>for k := range custom\<close> that look each key up in the standard fields.
\<close>

definition collides :: "json gomap \<Rightarrow> json gomap \<Rightarrow> bool" where
  "collides m custom = list_ex (\<lambda>k. map_of m k \<noteq> None) (map fst custom)"

definition validateApsAlert :: "ApsAlert option \<Rightarrow> error option" where
  "validateApsAlert alert =
     (case alert of
        None \<Rightarrow> None
      | Some a \<Rightarrow>
          if length (ApsAlert.TitleLocArgs a) > 0 \<and> ApsAlert.TitleLocKey a = []
          then Some TitleLocKeyRequired
          else if length (SubTitleLocArgs a) > 0 \<and> SubTitleLocKey a = []
          then Some SubtitleLocKeyRequired
          else if length (LocArgs a) > 0 \<and> LocKey a = [] then Some LocKeyRequired
          else None)"

definition validateAps :: "Aps option \<Rightarrow> error option" where
  "validateAps aps =
     (case aps of
        None \<Rightarrow> None
      | Some a \<Rightarrow>
          if Alert a \<noteq> None \<and> AlertString a \<noteq> [] then Some MultipleAlert
          else if Aps.CriticalSound a \<noteq> None \<and> Aps.Sound a \<noteq> [] then Some MultipleSound
          else if (case Aps.CriticalSound a of
                     None \<Rightarrow> False
                   | Some cs \<Rightarrow> Volume cs < 0 \<or> Volume cs > 1)
          then Some CriticalVolume
          else if collides (Aps_standardFields a) (Aps.CustomData a) then Some MultipleSpecifications
          else validateApsAlert (Alert a))"

definition validateAPNSPayload :: "APNSPayload option \<Rightarrow> error option" where
  "validateAPNSPayload payload =
     (case payload of
        None \<Rightarrow> None
      | Some p \<Rightarrow>
          if collides (APNSPayload_standardFields p) (APNSPayload.CustomData p)
          then Some MultipleSpecifications
          else validateAps (APNSPayload.Aps p))"

definition validateAPNSConfig :: "urlParser \<Rightarrow> APNSConfig option \<Rightarrow> error option" where
  "validateAPNSConfig parse config =
     (case config of
        None \<Rightarrow> None
      | Some c \<Rightarrow>
          (case APNSConfig.FCMOptions c of
             None \<Rightarrow> validateAPNSPayload (Payload c)
           | Some opts \<Rightarrow>
               let image = APNSFCMOptions.ImageURL opts
               in if image \<noteq> [] \<and> isValidURL parse image \<noteq> None
                  then Some (InvalidImageURL image)
                  else validateAPNSPayload (Payload c)))"

definition validateWebpushConfig :: "urlParser \<Rightarrow> WebpushConfig option \<Rightarrow> error option" where
  "validateWebpushConfig parse webpush =
     (case webpush of
        None \<Rightarrow> None
      | Some w \<Rightarrow>
          (case WebpushConfig.Notification w of
             None \<Rightarrow> None
           | Some n \<Rightarrow>
               let dir = Direction n
               in
                 if dir \<noteq> [] \<and> dir \<noteq> ''ltr'' \<and> dir \<noteq> ''rtl'' \<and> dir \<noteq> ''auto''
                 then Some DirectionInvalid
                 else if collides (WebpushNotification_standardFields n)
                           (WebpushNotification.CustomData n)
                 then Some MultipleSpecifications
                 else
                   (case WebpushConfig.FCMOptions w of
                      None \<Rightarrow> None
                    | Some opts \<Rightarrow>
                        let link = Link opts
                        in
                          (case parse link of
                             None \<Rightarrow> Some (InvalidLinkURL link)
                           | Some p \<Rightarrow>
                               if Scheme p \<noteq> ''https'' then Some (InvalidLinkScheme link)
                               else None))))"

definition validateMessage :: "urlParser \<Rightarrow> Message option \<Rightarrow> error option" where
  "validateMessage parse message =
     (case message of
        None \<Rightarrow> Some MessageNil
      | Some m \<Rightarrow>
          let targets = countNonEmpty [Token m, Condition m, Topic m]
          in
            if targets \<noteq> 1 then Some TargetsError
            else if Topic m \<noteq> [] \<and> \<not> bareTopicNamePattern (trimPrefix (Topic m) ''/topics/'')
            then Some MalformedTopic
            else
              (case validateNotification parse (Message.Notification m) of
                 Some err \<Rightarrow> Some err
               | None \<Rightarrow>
                   (case validateAndroidConfig parse (Android m) of
                      Some err \<Rightarrow> Some err
                    | None \<Rightarrow>
                        (case validateWebpushConfig parse (Webpush m) of
                           Some err \<Rightarrow> Some err
                         | None \<Rightarrow> validateAPNSConfig parse (APNS m)))))"

section \<open>Decoding with \<^verbatim>\<open>encoding/json\<close>\<close>

text \<open>
  \<^verbatim>\<open>json.Unmarshal\<close> reads a value into a Go value that already exists.  A JSON value of
  the wrong type for its target is recorded and the reading goes on; the call fails at the
  end when a mismatch was recorded (\<open>DCont True\<close>).  The error of an \<^verbatim>\<open>UnmarshalJSON\<close>
  method stops the reading at once (\<open>DHard\<close>), and so does a panic.
\<close>

datatype 'a dres = DPanic | DHard error | DCont bool 'a

definition unmarshal :: "(json \<Rightarrow> 'a \<Rightarrow> 'a dres) \<Rightarrow> json \<Rightarrow> 'a \<Rightarrow> 'a outcome" where
  "unmarshal dec j old =
     (case dec j old of
        DPanic \<Rightarrow> Panic
      | DHard err \<Rightarrow> Failed err
      | DCont mismatch v \<Rightarrow> if mismatch then Failed JSONError else Value v)"

subsection \<open>Basic targets\<close>

text \<open>\<open>null\<close> leaves a string, a boolean or a number as it is.\<close>

definition decString :: "json \<Rightarrow> string \<Rightarrow> string dres" where
  "decString j old =
     (case j of JStr s \<Rightarrow> DCont False s | JNull \<Rightarrow> DCont False old | _ \<Rightarrow> DCont True old)"

definition decBool :: "json \<Rightarrow> bool \<Rightarrow> bool dres" where
  "decBool j old =
     (case j of JBool b \<Rightarrow> DCont False b | JNull \<Rightarrow> DCont False old | _ \<Rightarrow> DCont True old)"

definition decInt :: "json \<Rightarrow> int64 \<Rightarrow> int64 dres" where
  "decInt j old =
     (case j of
        JInt n \<Rightarrow>
          if - (2 ^ 63) \<le> n \<and> n < 2 ^ 63 then DCont False (word_of_int n) else DCont True old
      | JNull \<Rightarrow> DCont False old
      | _ \<Rightarrow> DCont True old)"

definition decFloat :: "json \<Rightarrow> real \<Rightarrow> real dres" where
  "decFloat j old =
     (case j of
        JInt n \<Rightarrow> DCont False (real_of_int n)
      | JFloat r \<Rightarrow> DCont False r
      | JNull \<Rightarrow> DCont False old
      | _ \<Rightarrow> DCont True old)"

text \<open>A target of type \<^verbatim>\<open>any\<close> takes every value; \<open>null\<close> makes it \<^verbatim>\<open>nil\<close>.\<close>

definition decAny :: "json \<Rightarrow> json option \<Rightarrow> json option dres" where
  "decAny j old = (case j of JNull \<Rightarrow> DCont False None | _ \<Rightarrow> DCont False (Some j))"

text \<open>
  A pointer: \<open>null\<close> makes it \<^verbatim>\<open>nil\<close>; any other value is read into what it points to, a
  new zero value if the pointer was \<^verbatim>\<open>nil\<close>.
\<close>

definition decPtr :: "(json \<Rightarrow> 'a \<Rightarrow> 'a dres) \<Rightarrow> 'a \<Rightarrow> json \<Rightarrow> 'a option \<Rightarrow> 'a option dres" where
  "decPtr dec zero j old =
     (case j of
        JNull \<Rightarrow> DCont False None
      | _ \<Rightarrow>
          (case dec j (case old of None \<Rightarrow> zero | Some x \<Rightarrow> x) of
             DPanic \<Rightarrow> DPanic
           | DHard err \<Rightarrow> DHard err
           | DCont mismatch v \<Rightarrow> DCont mismatch (Some v)))"

text \<open>A pointer to a type with an \<^verbatim>\<open>UnmarshalJSON\<close> method: the method is called.\<close>

definition decPtrCustom ::
    "(json \<Rightarrow> 'a \<Rightarrow> 'a outcome) \<Rightarrow> 'a \<Rightarrow> json \<Rightarrow> 'a option \<Rightarrow> 'a option dres" where
  "decPtrCustom method zero j old =
     (case j of
        JNull \<Rightarrow> DCont False None
      | _ \<Rightarrow>
          (case method j (case old of None \<Rightarrow> zero | Some x \<Rightarrow> x) of
             Panic \<Rightarrow> DPanic
           | Failed err \<Rightarrow> DHard err
           | Value v \<Rightarrow> DCont False (Some v)))"

text \<open>A slice: the elements of the array are read in turn into new elements.\<close>

fun decElems :: "(json \<Rightarrow> 'a \<Rightarrow> 'a dres) \<Rightarrow> 'a \<Rightarrow> json list \<Rightarrow> 'a list dres" where
  "decElems dec zero [] = DCont False []"
| "decElems dec zero (j # js) =
     (case dec j zero of
        DPanic \<Rightarrow> DPanic
      | DHard err \<Rightarrow> DHard err
      | DCont mismatch v \<Rightarrow>
          (case decElems dec zero js of
             DPanic \<Rightarrow> DPanic
           | DHard err \<Rightarrow> DHard err
           | DCont mismatch' vs \<Rightarrow> DCont (mismatch \<or> mismatch') (v # vs)))"

definition decSlice :: "(json \<Rightarrow> 'a \<Rightarrow> 'a dres) \<Rightarrow> 'a \<Rightarrow> json \<Rightarrow> 'a list \<Rightarrow> 'a list dres" where
  "decSlice dec zero j old =
     (case j of
        JNull \<Rightarrow> DCont False []
      | JArr js \<Rightarrow> decElems dec zero js
      | _ \<Rightarrow> DCont True old)"

text \<open>
  A map: the members of the object are added to the map in turn, a later one replacing an
  earlier one of the same name; each value is read into a new element.
\<close>

fun decEntries ::
    "(json \<Rightarrow> 'v \<Rightarrow> 'v dres) \<Rightarrow> 'v \<Rightarrow> (string \<times> json) list \<Rightarrow> 'v gomap \<Rightarrow> 'v gomap dres" where
  "decEntries dec zero [] m = DCont False m"
| "decEntries dec zero ((k, j) # ms) m =
     (case dec j zero of
        DPanic \<Rightarrow> DPanic
      | DHard err \<Rightarrow> DHard err
      | DCont mismatch v \<Rightarrow>
          (case decEntries dec zero ms (AList.update k v m) of
             DPanic \<Rightarrow> DPanic
           | DHard err \<Rightarrow> DHard err
           | DCont mismatch' m' \<Rightarrow> DCont (mismatch \<or> mismatch') m'))"

definition decMap ::
    "(json \<Rightarrow> 'v \<Rightarrow> 'v dres) \<Rightarrow> 'v \<Rightarrow> json \<Rightarrow> 'v gomap \<Rightarrow> 'v gomap dres" where
  "decMap dec zero j old =
     (case j of
        JNull \<Rightarrow> DCont False []
      | JObj ms \<Rightarrow> decEntries dec zero ms old
      | _ \<Rightarrow> DCont True old)"

text \<open>The value of a \<^verbatim>\<open>map[string]any\<close> is the JSON value itself.\<close>

definition decValue :: "json \<Rightarrow> json \<Rightarrow> json dres" where
  "decValue j old = DCont False j"

definition decAnyMap :: "json \<Rightarrow> json gomap \<Rightarrow> json gomap dres" where
  "decAnyMap = decMap decValue JNull"

definition decStringMap :: "json \<Rightarrow> string gomap \<Rightarrow> string gomap dres" where
  "decStringMap = decMap decString []"

subsection \<open>Structs\<close>

text \<open>
  The name of a member is matched with the names of the fields: the field of exactly this
  name, or else the first field whose name is the same after folding.  Folding
  (\<^verbatim>\<open>foldName\<close>) turns the letters \<open>a\<close> to \<open>z\<close> into capitals and every rune into the
  least rune of its case orbit; the runes that fold to a letter of the field names, all
  ASCII, are the Kelvin sign (bytes \<open>E2 84 AA\<close>, to \<open>K\<close>) and the long s (bytes
  \<open>C5 BF\<close>, to \<open>S\<close>), and every other byte above 127 is kept here as it is.
\<close>

definition upperByte :: "char \<Rightarrow> char" where
  "upperByte c =
     (let n = (of_char c :: nat)
      in if 97 \<le> n \<and> n \<le> 122 then ''ABCDEFGHIJKLMNOPQRSTUVWXYZ'' ! (n - 97) else c)"

fun foldName :: "string \<Rightarrow> string" where
  "foldName [] = []"
| "foldName (c # cs) =
     (if c = CHR 0xE2 \<and> take 2 cs = [CHR 0x84, CHR 0xAA] then CHR ''K'' # foldName (drop 2 cs)
      else if c = CHR 0xC5 \<and> take 1 cs = [CHR 0xBF] then CHR ''S'' # foldName (drop 1 cs)
      else upperByte c # foldName cs)"

definition findName :: "string list \<Rightarrow> string \<Rightarrow> string option" where
  "findName names key =
     (if key \<in> set names then Some key
      else find (\<lambda>name. foldName name = foldName key) names)"

text \<open>
  The members of an object are read in their order; \<open>setField\<close> reads a value into the
  field of a given name, and a member that matches no field is skipped.
\<close>

fun decMembers ::
    "string list \<Rightarrow> (string \<Rightarrow> json \<Rightarrow> 's \<Rightarrow> 's dres) \<Rightarrow> (string \<times> json) list \<Rightarrow> 's \<Rightarrow> 's dres" where
  "decMembers names setField [] s = DCont False s"
| "decMembers names setField ((k, j) # ms) s =
     (case findName names k of
        None \<Rightarrow> decMembers names setField ms s
      | Some name \<Rightarrow>
          (case setField name j s of
             DPanic \<Rightarrow> DPanic
           | DHard err \<Rightarrow> DHard err
           | DCont mismatch s' \<Rightarrow>
               (case decMembers names setField ms s' of
                  DPanic \<Rightarrow> DPanic
                | DHard err \<Rightarrow> DHard err
                | DCont mismatch' s'' \<Rightarrow> DCont (mismatch \<or> mismatch') s'')))"

definition decStruct ::
    "string list \<Rightarrow> (string \<Rightarrow> json \<Rightarrow> 's \<Rightarrow> 's dres) \<Rightarrow> json \<Rightarrow> 's \<Rightarrow> 's dres" where
  "decStruct names setField j old =
     (case j of
        JNull \<Rightarrow> DCont False old
      | JObj ms \<Rightarrow> decMembers names setField ms old
      | _ \<Rightarrow> DCont True old)"

text \<open>Reading a value into one field: the field is read, decoded into, and written back.\<close>

definition intoField ::
    "('s \<Rightarrow> 'v) \<Rightarrow> ('v \<Rightarrow> 's \<Rightarrow> 's) \<Rightarrow> (json \<Rightarrow> 'v \<Rightarrow> 'v dres) \<Rightarrow> json \<Rightarrow> 's \<Rightarrow> 's dres" where
  "intoField get put dec j s =
     (case dec j (get s) of
        DPanic \<Rightarrow> DPanic
      | DHard err \<Rightarrow> DHard err
      | DCont mismatch v \<Rightarrow> DCont mismatch (put v s))"

section \<open>Decoding of the message and its blocks\<close>

subsection \<open>Plain structs\<close>

definition Notification_set :: "string \<Rightarrow> json \<Rightarrow> Notification \<Rightarrow> Notification dres" where
  "Notification_set name =
     (if name = ''title'' then
        intoField Notification.Title (\<lambda>v s. s\<lparr>Notification.Title := v\<rparr>) decString
      else if name = ''body'' then
        intoField Notification.Body (\<lambda>v s. s\<lparr>Notification.Body := v\<rparr>) decString
      else
        intoField Notification.ImageURL (\<lambda>v s. s\<lparr>Notification.ImageURL := v\<rparr>) decString)"

definition Notification_dec :: "json \<Rightarrow> Notification \<Rightarrow> Notification dres" where
  "Notification_dec = decStruct [''title'', ''body'', ''image''] Notification_set"

definition FCMOptions_dec :: "json \<Rightarrow> FCMOptions \<Rightarrow> FCMOptions dres" where
  "FCMOptions_dec =
     decStruct [''analytics_label'']
       (\<lambda>name. intoField FCMOptions.AnalyticsLabel (\<lambda>v s. s\<lparr>FCMOptions.AnalyticsLabel := v\<rparr>)
          decString)"

definition WebpushNotificationAction_set ::
    "string \<Rightarrow> json \<Rightarrow> WebpushNotificationAction \<Rightarrow> WebpushNotificationAction dres" where
  "WebpushNotificationAction_set name =
     (if name = ''action'' then intoField Action (\<lambda>v s. s\<lparr>Action := v\<rparr>) decString
      else if name = ''title'' then
        intoField WebpushNotificationAction.Title
          (\<lambda>v s. s\<lparr>WebpushNotificationAction.Title := v\<rparr>) decString
      else
        intoField WebpushNotificationAction.Icon
          (\<lambda>v s. s\<lparr>WebpushNotificationAction.Icon := v\<rparr>) decString)"

definition WebpushNotificationAction_dec ::
    "json \<Rightarrow> WebpushNotificationAction \<Rightarrow> WebpushNotificationAction dres" where
  "WebpushNotificationAction_dec =
     decStruct [''action'', ''title'', ''icon''] WebpushNotificationAction_set"

definition WebpushFCMOptions_dec :: "json \<Rightarrow> WebpushFCMOptions \<Rightarrow> WebpushFCMOptions dres" where
  "WebpushFCMOptions_dec =
     decStruct [''link''] (\<lambda>name. intoField Link (\<lambda>v s. s\<lparr>Link := v\<rparr>) decString)"

definition ApsAlert_set :: "string \<Rightarrow> json \<Rightarrow> ApsAlert \<Rightarrow> ApsAlert dres" where
  "ApsAlert_set name =
     (if name = ''title'' then
        intoField ApsAlert.Title (\<lambda>v s. s\<lparr>ApsAlert.Title := v\<rparr>) decString
      else if name = ''subtitle'' then intoField SubTitle (\<lambda>v s. s\<lparr>SubTitle := v\<rparr>) decString
      else if name = ''body'' then
        intoField ApsAlert.Body (\<lambda>v s. s\<lparr>ApsAlert.Body := v\<rparr>) decString
      else if name = ''loc-key'' then intoField LocKey (\<lambda>v s. s\<lparr>LocKey := v\<rparr>) decString
      else if name = ''loc-args'' then
        intoField LocArgs (\<lambda>v s. s\<lparr>LocArgs := v\<rparr>) (decSlice decString [])
      else if name = ''title-loc-key'' then
        intoField ApsAlert.TitleLocKey (\<lambda>v s. s\<lparr>ApsAlert.TitleLocKey := v\<rparr>) decString
      else if name = ''title-loc-args'' then
        intoField ApsAlert.TitleLocArgs (\<lambda>v s. s\<lparr>ApsAlert.TitleLocArgs := v\<rparr>)
          (decSlice decString [])
      else if name = ''subtitle-loc-key'' then
        intoField SubTitleLocKey (\<lambda>v s. s\<lparr>SubTitleLocKey := v\<rparr>) decString
      else if name = ''subtitle-loc-args'' then
        intoField SubTitleLocArgs (\<lambda>v s. s\<lparr>SubTitleLocArgs := v\<rparr>) (decSlice decString [])
      else if name = ''action-loc-key'' then
        intoField ActionLocKey (\<lambda>v s. s\<lparr>ActionLocKey := v\<rparr>) decString
      else intoField LaunchImage (\<lambda>v s. s\<lparr>LaunchImage := v\<rparr>) decString)"

definition ApsAlert_names :: "string list" where
  "ApsAlert_names =
     [''title'', ''subtitle'', ''body'', ''loc-key'', ''loc-args'', ''title-loc-key'',
      ''title-loc-args'', ''subtitle-loc-key'', ''subtitle-loc-args'', ''action-loc-key'',
      ''launch-image'']"

definition ApsAlert_dec :: "json \<Rightarrow> ApsAlert \<Rightarrow> ApsAlert dres" where
  "ApsAlert_dec = decStruct ApsAlert_names ApsAlert_set"

definition APNSFCMOptions_dec :: "json \<Rightarrow> APNSFCMOptions \<Rightarrow> APNSFCMOptions dres" where
  "APNSFCMOptions_dec =
     decStruct [''analytics_label'', ''image'']
       (\<lambda>name.
          if name = ''analytics_label'' then
            intoField APNSFCMOptions.AnalyticsLabel
              (\<lambda>v s. s\<lparr>APNSFCMOptions.AnalyticsLabel := v\<rparr>) decString
          else
            intoField APNSFCMOptions.ImageURL (\<lambda>v s. s\<lparr>APNSFCMOptions.ImageURL := v\<rparr>)
              decString)"

subsection \<open>\<^verbatim>\<open>WebpushNotification.UnmarshalJSON\<close>\<close>

text \<open>
  The wrapper type has the fields of the struct and no methods.  \<^verbatim>\<open>CustomData\<close> has no
  tag, so it is a field of the wire object under its own name.
\<close>

definition WebpushNotification_names :: "string list" where
  "WebpushNotification_names =
     [''actions'', ''title'', ''body'', ''icon'', ''badge'', ''dir'', ''data'', ''image'',
      ''lang'', ''renotify'', ''requireInteraction'', ''silent'', ''tag'', ''timestamp'',
      ''vibrate'', ''CustomData'']"

definition WebpushNotification_set ::
    "string \<Rightarrow> json \<Rightarrow> WebpushNotification \<Rightarrow> WebpushNotification dres" where
  "WebpushNotification_set name =
     (if name = ''actions'' then
        intoField Actions (\<lambda>v s. s\<lparr>Actions := v\<rparr>)
          (decSlice (decPtr WebpushNotificationAction_dec
             \<lparr>Action = [], Title = [], Icon = []\<rparr>) None)
      else if name = ''title'' then
        intoField WebpushNotification.Title (\<lambda>v s. s\<lparr>WebpushNotification.Title := v\<rparr>)
          decString
      else if name = ''body'' then
        intoField WebpushNotification.Body (\<lambda>v s. s\<lparr>WebpushNotification.Body := v\<rparr>) decString
      else if name = ''icon'' then
        intoField WebpushNotification.Icon (\<lambda>v s. s\<lparr>WebpushNotification.Icon := v\<rparr>) decString
      else if name = ''badge'' then
        intoField WebpushNotification.Badge (\<lambda>v s. s\<lparr>WebpushNotification.Badge := v\<rparr>)
          decString
      else if name = ''dir'' then intoField Direction (\<lambda>v s. s\<lparr>Direction := v\<rparr>) decString
      else if name = ''data'' then
        intoField WebpushNotification.Data (\<lambda>v s. s\<lparr>WebpushNotification.Data := v\<rparr>) decAny
      else if name = ''image'' then intoField Image (\<lambda>v s. s\<lparr>Image := v\<rparr>) decString
      else if name = ''lang'' then intoField Language (\<lambda>v s. s\<lparr>Language := v\<rparr>) decString
      else if name = ''renotify'' then intoField Renotify (\<lambda>v s. s\<lparr>Renotify := v\<rparr>) decBool
      else if name = ''requireInteraction'' then
        intoField RequireInteraction (\<lambda>v s. s\<lparr>RequireInteraction := v\<rparr>) decBool
      else if name = ''silent'' then intoField Silent (\<lambda>v s. s\<lparr>Silent := v\<rparr>) decBool
      else if name = ''tag'' then
        intoField WebpushNotification.Tag (\<lambda>v s. s\<lparr>WebpushNotification.Tag := v\<rparr>) decString
      else if name = ''timestamp'' then
        intoField TimestampMillis (\<lambda>v s. s\<lparr>TimestampMillis := v\<rparr>) (decPtr decInt 0)
      else if name = ''vibrate'' then
        intoField Vibrate (\<lambda>v s. s\<lparr>Vibrate := v\<rparr>) (decSlice decInt 0)
      else
        intoField WebpushNotification.CustomData
          (\<lambda>v s. s\<lparr>WebpushNotification.CustomData := v\<rparr>) decAnyMap)"

text \<open>The loop \<^verbatim>\<open>for k := range standardFields() { delete(allFields, k) }\<close>.\<close>

definition deleteKeys :: "string list \<Rightarrow> json gomap \<Rightarrow> json gomap" where
  "deleteKeys ks m = fold AList.delete ks m"

definition WebpushNotification_UnmarshalJSON ::
    "json \<Rightarrow> WebpushNotification \<Rightarrow> WebpushNotification outcome" where
  "WebpushNotification_UnmarshalJSON b n =
     (case unmarshal (decStruct WebpushNotification_names WebpushNotification_set) b n of
        Panic \<Rightarrow> Panic
      | Failed err \<Rightarrow> Failed err
      | Value n' \<Rightarrow>
          (case unmarshal decAnyMap b [] of
             Panic \<Rightarrow> Panic
           | Failed err \<Rightarrow> Failed err
           | Value allFields \<Rightarrow>
               let rest = deleteKeys (map fst (WebpushNotification_standardFields n')) allFields
               in
                 if length rest > 0 then Value (n'\<lparr>WebpushNotification.CustomData := rest\<rparr>)
                 else Value n'))"

subsection \<open>\<^verbatim>\<open>CriticalSound.UnmarshalJSON\<close>\<close>

record criticalSoundTmp =
  CriticalInt :: int64
  criticalSoundWrapper :: CriticalSound

definition criticalSoundTmp_set ::
    "string \<Rightarrow> json \<Rightarrow> criticalSoundTmp \<Rightarrow> criticalSoundTmp dres" where
  "criticalSoundTmp_set name =
     (if name = ''critical'' then intoField CriticalInt (\<lambda>v s. s\<lparr>CriticalInt := v\<rparr>) decInt
      else if name = ''name'' then
        intoField (\<lambda>s. Name (criticalSoundWrapper s))
          (\<lambda>v s. s\<lparr>criticalSoundWrapper := (criticalSoundWrapper s)\<lparr>Name := v\<rparr>\<rparr>) decString
      else
        intoField (\<lambda>s. Volume (criticalSoundWrapper s))
          (\<lambda>v s. s\<lparr>criticalSoundWrapper := (criticalSoundWrapper s)\<lparr>Volume := v\<rparr>\<rparr>) decFloat)"

definition CriticalSound_UnmarshalJSON :: "json \<Rightarrow> CriticalSound \<Rightarrow> CriticalSound outcome" where
  "CriticalSound_UnmarshalJSON b cs =
     (case unmarshal (decStruct [''critical'', ''name'', ''volume''] criticalSoundTmp_set) b
             \<lparr>CriticalInt = 0, criticalSoundWrapper = cs\<rparr> of
        Panic \<Rightarrow> Panic
      | Failed err \<Rightarrow> Failed err
      | Value tmp \<Rightarrow> Value ((criticalSoundWrapper tmp)\<lparr>Critical := (CriticalInt tmp = 1)\<rparr>))"

subsection \<open>\<^verbatim>\<open>Aps.UnmarshalJSON\<close>\<close>

text \<open>
  The wrapper struct: the two raw messages, the two integers, and the embedded dictionary
  with its tagged fields \<open>badge\<close>, \<open>category\<close> and \<open>thread-id\<close>.  A raw message keeps
  the value as it is; \<open>null\<close> makes the pointer \<^verbatim>\<open>nil\<close>.
\<close>

record apsTmp =
  AlertObject :: "json option"
  SoundObject :: "json option"
  ContentAvailableInt :: int64
  MutableContentInt :: int64
  apsWrapper :: Aps

definition apsTmp_names :: "string list" where
  "apsTmp_names =
     [''alert'', ''sound'', ''content-available'', ''mutable-content'', ''badge'', ''category'',
      ''thread-id'']"

definition apsTmp_set :: "string \<Rightarrow> json \<Rightarrow> apsTmp \<Rightarrow> apsTmp dres" where
  "apsTmp_set name =
     (if name = ''alert'' then intoField AlertObject (\<lambda>v s. s\<lparr>AlertObject := v\<rparr>) decAny
      else if name = ''sound'' then intoField SoundObject (\<lambda>v s. s\<lparr>SoundObject := v\<rparr>) decAny
      else if name = ''content-available'' then
        intoField ContentAvailableInt (\<lambda>v s. s\<lparr>ContentAvailableInt := v\<rparr>) decInt
      else if name = ''mutable-content'' then
        intoField MutableContentInt (\<lambda>v s. s\<lparr>MutableContentInt := v\<rparr>) decInt
      else if name = ''badge'' then
        intoField (\<lambda>s. Aps.Badge (apsWrapper s))
          (\<lambda>v s. s\<lparr>apsWrapper := (apsWrapper s)\<lparr>Aps.Badge := v\<rparr>\<rparr>) (decPtr decInt 0)
      else if name = ''category'' then
        intoField (\<lambda>s. Category (apsWrapper s))
          (\<lambda>v s. s\<lparr>apsWrapper := (apsWrapper s)\<lparr>Category := v\<rparr>\<rparr>) decString
      else
        intoField (\<lambda>s. ThreadID (apsWrapper s))
          (\<lambda>v s. s\<lparr>apsWrapper := (apsWrapper s)\<lparr>ThreadID := v\<rparr>\<rparr>) decString)"

text \<open>
  The alert is read as a structured alert first; when that fails the structured alert is
  dropped and the value is read as a string.
\<close>

definition Aps_alert :: "json option \<Rightarrow> Aps \<Rightarrow> Aps outcome" where
  "Aps_alert alertObject a =
     (case alertObject of
        None \<Rightarrow> Value a
      | Some raw \<Rightarrow>
          (case unmarshal (decPtr ApsAlert_dec emptyApsAlert) raw (Alert a) of
             Value al \<Rightarrow> Value (a\<lparr>Alert := al\<rparr>)
           | _ \<Rightarrow>
               (case unmarshal decString raw (AlertString a) of
                  Value str \<Rightarrow> Value (a\<lparr>Alert := None, AlertString := str\<rparr>)
                | _ \<Rightarrow> Failed AlertUnmarshalError)))"

definition Aps_sound :: "json option \<Rightarrow> Aps \<Rightarrow> Aps outcome" where
  "Aps_sound soundObject a =
     (case soundObject of
        None \<Rightarrow> Value a
      | Some raw \<Rightarrow>
          (case unmarshal (decPtrCustom CriticalSound_UnmarshalJSON emptyCriticalSound) raw
                  (Aps.CriticalSound a) of
             Value cs \<Rightarrow> Value (a\<lparr>Aps.CriticalSound := cs\<rparr>)
           | _ \<Rightarrow>
               (case unmarshal decString raw (Aps.Sound a) of
                  Value str \<Rightarrow> Value (a\<lparr>Aps.CriticalSound := None, Aps.Sound := str\<rparr>)
                | _ \<Rightarrow> Failed SoundUnmarshalError)))"

definition Aps_UnmarshalJSON :: "json \<Rightarrow> Aps \<Rightarrow> Aps outcome" where
  "Aps_UnmarshalJSON b a =
     (case unmarshal (decStruct apsTmp_names apsTmp_set) b
             \<lparr>AlertObject = None, SoundObject = None, ContentAvailableInt = 0,
              MutableContentInt = 0, apsWrapper = a\<rparr> of
        Panic \<Rightarrow> Panic
      | Failed err \<Rightarrow> Failed err
      | Value tmp \<Rightarrow>
     (case Aps_alert (AlertObject tmp)
             ((apsWrapper tmp)\<lparr>ContentAvailable := (ContentAvailableInt tmp = 1),
                               MutableContent := (MutableContentInt tmp = 1)\<rparr>) of
        Panic \<Rightarrow> Panic
      | Failed err \<Rightarrow> Failed err
      | Value a1 \<Rightarrow>
     (case Aps_sound (SoundObject tmp) a1 of
        Panic \<Rightarrow> Panic
      | Failed err \<Rightarrow> Failed err
      | Value a2 \<Rightarrow>
     (case unmarshal decAnyMap b [] of
        Panic \<Rightarrow> Panic
      | Failed err \<Rightarrow> Failed err
      | Value allFields \<Rightarrow>
          let rest = deleteKeys (map fst (Aps_standardFields a2)) allFields
          in if length rest > 0 then Value (a2\<lparr>Aps.CustomData := rest\<rparr>) else Value a2))))"

subsection \<open>\<^verbatim>\<open>APNSPayload.UnmarshalJSON\<close>\<close>

definition emptyAPNSPayload :: APNSPayload where
  "emptyAPNSPayload = \<lparr>Aps = None, CustomData = []\<rparr>"

definition APNSPayload_UnmarshalJSON :: "json \<Rightarrow> APNSPayload \<Rightarrow> APNSPayload outcome" where
  "APNSPayload_UnmarshalJSON b p =
     (case unmarshal
             (decStruct [''aps'']
                (\<lambda>name. intoField APNSPayload.Aps (\<lambda>v s. s\<lparr>APNSPayload.Aps := v\<rparr>)
                   (decPtrCustom Aps_UnmarshalJSON emptyAps))) b p of
        Panic \<Rightarrow> Panic
      | Failed err \<Rightarrow> Failed err
      | Value p' \<Rightarrow>
          (case unmarshal decAnyMap b [] of
             Panic \<Rightarrow> Panic
           | Failed err \<Rightarrow> Failed err
           | Value allFields \<Rightarrow>
               let rest = deleteKeys (map fst (APNSPayload_standardFields p')) allFields
               in if length rest > 0 then Value (p'\<lparr>APNSPayload.CustomData := rest\<rparr>)
                  else Value p'))"

subsection \<open>The platform blocks\<close>

definition WebpushConfig_set :: "string \<Rightarrow> json \<Rightarrow> WebpushConfig \<Rightarrow> WebpushConfig dres" where
  "WebpushConfig_set name =
     (if name = ''headers'' then
        intoField WebpushConfig.Headers (\<lambda>v s. s\<lparr>WebpushConfig.Headers := v\<rparr>) decStringMap
      else if name = ''data'' then
        intoField WebpushConfig.Data (\<lambda>v s. s\<lparr>WebpushConfig.Data := v\<rparr>) decStringMap
      else if name = ''notification'' then
        intoField WebpushConfig.Notification (\<lambda>v s. s\<lparr>WebpushConfig.Notification := v\<rparr>)
          (decPtrCustom WebpushNotification_UnmarshalJSON emptyWebpushNotification)
      else
        intoField WebpushConfig.FCMOptions (\<lambda>v s. s\<lparr>WebpushConfig.FCMOptions := v\<rparr>)
          (decPtr WebpushFCMOptions_dec \<lparr>Link = []\<rparr>))"

definition WebpushConfig_dec :: "json \<Rightarrow> WebpushConfig \<Rightarrow> WebpushConfig dres" where
  "WebpushConfig_dec =
     decStruct [''headers'', ''data'', ''notification'', ''fcm_options''] WebpushConfig_set"

definition emptyAPNSConfig :: APNSConfig where
  "emptyAPNSConfig =
     \<lparr>APNSConfig.Headers = [], Payload = None, FCMOptions = None, LiveActivityToken = []\<rparr>"

definition APNSConfig_set :: "string \<Rightarrow> json \<Rightarrow> APNSConfig \<Rightarrow> APNSConfig dres" where
  "APNSConfig_set name =
     (if name = ''headers'' then
        intoField APNSConfig.Headers (\<lambda>v s. s\<lparr>APNSConfig.Headers := v\<rparr>) decStringMap
      else if name = ''payload'' then
        intoField Payload (\<lambda>v s. s\<lparr>Payload := v\<rparr>)
          (decPtrCustom APNSPayload_UnmarshalJSON emptyAPNSPayload)
      else if name = ''fcm_options'' then
        intoField APNSConfig.FCMOptions (\<lambda>v s. s\<lparr>APNSConfig.FCMOptions := v\<rparr>)
          (decPtr APNSFCMOptions_dec \<lparr>APNSFCMOptions.AnalyticsLabel = [], ImageURL = []\<rparr>)
      else intoField LiveActivityToken (\<lambda>v s. s\<lparr>LiveActivityToken := v\<rparr>) decString)"

definition APNSConfig_dec :: "json \<Rightarrow> APNSConfig \<Rightarrow> APNSConfig dres" where
  "APNSConfig_dec =
     decStruct [''headers'', ''payload'', ''fcm_options'', ''live_activity_token''] APNSConfig_set"

definition emptyAndroidConfig :: AndroidConfig where
  "emptyAndroidConfig =
     \<lparr>CollapseKey = [], Priority = [], TTL = None, RestrictedPackageName = [], Data = [],
      Notification = None, FCMOptions = None, DirectBootOK = False\<rparr>"

subsection \<open>\<^verbatim>\<open>Message.UnmarshalJSON\<close>\<close>

text \<open>
  The wrapper struct: the field \<open>topic\<close>, and the embedded message with its tagged
  fields; the field \<^verbatim>\<open>Topic\<close> of the message itself is tagged \<open>-\<close> and is no field of
  the wire object.  The methods of the Android block are not unfolded in this
  development: \<open>android\<close> stands for \<^verbatim>\<open>AndroidConfig.UnmarshalJSON\<close>, which may fail or
  panic.
\<close>

record messageTmp =
  BareTopic :: string
  messageWrapper :: Message

definition messageTmp_names :: "string list" where
  "messageTmp_names =
     [''topic'', ''data'', ''notification'', ''android'', ''webpush'', ''apns'', ''fcm_options'',
      ''token'', ''condition'']"

definition messageTmp_set ::
    "(json \<Rightarrow> AndroidConfig \<Rightarrow> AndroidConfig outcome) \<Rightarrow> string \<Rightarrow> json \<Rightarrow> messageTmp
       \<Rightarrow> messageTmp dres" where
  "messageTmp_set android name =
     (if name = ''topic'' then intoField BareTopic (\<lambda>v s. s\<lparr>BareTopic := v\<rparr>) decString
      else if name = ''data'' then
        intoField (\<lambda>s. Message.Data (messageWrapper s))
          (\<lambda>v s. s\<lparr>messageWrapper := (messageWrapper s)\<lparr>Message.Data := v\<rparr>\<rparr>) decStringMap
      else if name = ''notification'' then
        intoField (\<lambda>s. Message.Notification (messageWrapper s))
          (\<lambda>v s. s\<lparr>messageWrapper := (messageWrapper s)\<lparr>Message.Notification := v\<rparr>\<rparr>)
          (decPtr Notification_dec \<lparr>Notification.Title = [], Body = [], ImageURL = []\<rparr>)
      else if name = ''android'' then
        intoField (\<lambda>s. Android (messageWrapper s))
          (\<lambda>v s. s\<lparr>messageWrapper := (messageWrapper s)\<lparr>Android := v\<rparr>\<rparr>)
          (decPtrCustom android emptyAndroidConfig)
      else if name = ''webpush'' then
        intoField (\<lambda>s. Webpush (messageWrapper s))
          (\<lambda>v s. s\<lparr>messageWrapper := (messageWrapper s)\<lparr>Webpush := v\<rparr>\<rparr>)
          (decPtr WebpushConfig_dec emptyWebpushConfig)
      else if name = ''apns'' then
        intoField (\<lambda>s. APNS (messageWrapper s))
          (\<lambda>v s. s\<lparr>messageWrapper := (messageWrapper s)\<lparr>APNS := v\<rparr>\<rparr>)
          (decPtr APNSConfig_dec emptyAPNSConfig)
      else if name = ''fcm_options'' then
        intoField (\<lambda>s. Message.FCMOptions (messageWrapper s))
          (\<lambda>v s. s\<lparr>messageWrapper := (messageWrapper s)\<lparr>Message.FCMOptions := v\<rparr>\<rparr>)
          (decPtr FCMOptions_dec \<lparr>FCMOptions.AnalyticsLabel = []\<rparr>)
      else if name = ''token'' then
        intoField (\<lambda>s. Token (messageWrapper s))
          (\<lambda>v s. s\<lparr>messageWrapper := (messageWrapper s)\<lparr>Token := v\<rparr>\<rparr>) decString
      else
        intoField (\<lambda>s. Condition (messageWrapper s))
          (\<lambda>v s. s\<lparr>messageWrapper := (messageWrapper s)\<lparr>Condition := v\<rparr>\<rparr>) decString)"

definition Message_UnmarshalJSON ::
    "(json \<Rightarrow> AndroidConfig \<Rightarrow> AndroidConfig outcome) \<Rightarrow> json \<Rightarrow> Message \<Rightarrow> Message outcome" where
  "Message_UnmarshalJSON android b m =
     (case unmarshal (decStruct messageTmp_names (messageTmp_set android)) b
             \<lparr>BareTopic = [], messageWrapper = m\<rparr> of
        Panic \<Rightarrow> Panic
      | Failed err \<Rightarrow> Failed err
      | Value tmp \<Rightarrow> Value ((messageWrapper tmp)\<lparr>Topic := BareTopic tmp\<rparr>))"

subsection \<open>\<^verbatim>\<open>Message.MarshalJSON\<close>\<close>

definition Notification_json :: "Notification \<Rightarrow> json" where
  "Notification_json n =
     JObj (omitString ''title'' (Notification.Title n)
         @ omitString ''body'' (Notification.Body n)
         @ omitString ''image'' (Notification.ImageURL n))"

definition WebpushConfig_json :: "WebpushConfig \<Rightarrow> json" where
  "WebpushConfig_json w =
     JObj (omitStringMap ''headers'' (WebpushConfig.Headers w)
         @ omitStringMap ''data'' (WebpushConfig.Data w)
         @ omitPtr ''notification'' WebpushNotification_MarshalJSON (WebpushConfig.Notification w)
         @ omitPtr ''fcm_options'' (\<lambda>opts. JObj (omitString ''link'' (Link opts)))
             (WebpushConfig.FCMOptions w))"

definition APNSConfig_json :: "APNSConfig \<Rightarrow> json" where
  "APNSConfig_json c =
     JObj (omitStringMap ''headers'' (APNSConfig.Headers c)
         @ omitPtr ''payload'' APNSPayload_MarshalJSON (Payload c)
         @ omitPtr ''fcm_options''
             (\<lambda>opts. JObj (omitString ''analytics_label'' (APNSFCMOptions.AnalyticsLabel opts)
                         @ omitString ''image'' (APNSFCMOptions.ImageURL opts)))
             (APNSConfig.FCMOptions c)
         @ omitString ''live_activity_token'' (LiveActivityToken c))"

text \<open>
  The members are written in the order of the fields of the wrapper struct, the topic
  first.  \<open>android\<close> stands for \<^verbatim>\<open>AndroidConfig.MarshalJSON\<close>, which may fail or panic.
\<close>

definition Message_MarshalJSON :: "(AndroidConfig \<Rightarrow> json outcome) \<Rightarrow> Message \<Rightarrow> json outcome" where
  "Message_MarshalJSON android m =
     (case (case Android m of
              None \<Rightarrow> Value []
            | Some a \<Rightarrow>
                (case android a of
                   Panic \<Rightarrow> Panic
                 | Failed err \<Rightarrow> Failed err
                 | Value j \<Rightarrow> Value [(''android'', j)])) of
        Panic \<Rightarrow> Panic
      | Failed err \<Rightarrow> Failed err
      | Value androidMember \<Rightarrow>
          Value (JObj
            (omitString ''topic'' (trimPrefix (Topic m) ''/topics/'')
             @ omitStringMap ''data'' (Message.Data m)
             @ omitPtr ''notification'' Notification_json (Message.Notification m)
             @ androidMember
             @ omitPtr ''webpush'' WebpushConfig_json (Webpush m)
             @ omitPtr ''apns'' APNSConfig_json (APNS m)
             @ omitPtr ''fcm_options''
                 (\<lambda>opts. JObj (omitString ''analytics_label'' (FCMOptions.AnalyticsLabel opts)))
                 (Message.FCMOptions m)
             @ omitString ''token'' (Token m)
             @ omitString ''condition'' (Condition m))))"

section \<open>The value a wire object gives a field\<close>

text \<open>
  Several members of an object can be matched with the same field; each one that is not
  \<open>null\<close> overwrites the field.  \<open>wireValue names name ms\<close> is the value that the members
  \<open>ms\<close> give the field \<open>name\<close> of a struct with the fields \<open>names\<close>: the value of the last
  member matched with the field that is not \<open>null\<close>, if there is one.
\<close>

fun wireValue :: "string list \<Rightarrow> string \<Rightarrow> (string \<times> json) list \<Rightarrow> json option" where
  "wireValue names name [] = None"
| "wireValue names name ((k, v) # ms) =
     (case wireValue names name ms of
        Some x \<Rightarrow> Some x
      | None \<Rightarrow> if findName names k = Some name \<and> v \<noteq> JNull then Some v else None)"

text \<open>The string and the integer that a JSON value is read as.\<close>

definition jsonString :: "json \<Rightarrow> string" where
  "jsonString j = (case j of JStr s \<Rightarrow> s | _ \<Rightarrow> [])"

definition jsonInt :: "json \<Rightarrow> int64" where
  "jsonInt j = (case j of JInt n \<Rightarrow> word_of_int n | _ \<Rightarrow> 0)"

section \<open>Properties of the library functions\<close>

lemma below_ten: "d < 10 \<Longrightarrow> d \<in> {0, 1, 2, 3, 4, 5, 6, 7, 8, 9::nat}"
  by auto

lemma digitVal_digitChar: "d < 10 \<Longrightarrow> digitVal (digitChar d) = Some d"
  by (drule below_ten) (auto simp: digitVal_def digitChar_def Let_def)

lemma of_char_digitChar: "d < 10 \<Longrightarrow> (of_char (digitChar d) :: nat) = 48 + d"
  by (drule below_ten) (auto simp: digitChar_def)

lemma parseUintLoop_snoc:
  "parseUintLoop base maxVal n (cs @ [c]) =
     (case parseUintLoop base maxVal n cs of
        Inl e \<Rightarrow> Inl e
      | Inr v \<Rightarrow> parseUintLoop base maxVal v [c])"
  by (induction cs arbitrary: n) (auto split: option.splits)

lemma parseUintLoop_natDigits:
  "n \<le> maxVal \<Longrightarrow> maxVal < 2 ^ 64 \<Longrightarrow> parseUintLoop 10 maxVal 0 (natDigits 10 n) = Inr n"
proof (induction n rule: less_induct)
  case (less n)
  show ?case
  proof (cases "n < 10")
    case True
    then show ?thesis
      using less.prems by (simp add: natDigits.simps digitVal_digitChar)
  next
    case False
    have q: "n div 10 < n" "n div 10 \<le> maxVal"
      using False less.prems by auto
    have r: "n mod 10 < 10" by simp
    have "parseUintLoop 10 maxVal 0 (natDigits 10 (n div 10)) = Inr (n div 10)"
      using less.IH [OF q(1) q(2) less.prems(2)] .
    moreover have "n div 10 * 10 + n mod 10 = n" by simp
    moreover have "n div 10 < 1844674407370955162"
      using less.prems by simp
    ultimately show ?thesis
      using False less.prems
      by (simp add: natDigits.simps [of 10 n] parseUintLoop_snoc digitVal_digitChar [OF r])
  qed
qed

lemma natDigits_not_Nil: "natDigits base n \<noteq> []"
  by (subst natDigits.simps) simp

lemma natDigits_10_chars: "c \<in> set (natDigits 10 n) \<Longrightarrow> 48 \<le> (of_char c :: nat) \<and> (of_char c :: nat) \<le> 57"
proof (induction n arbitrary: c rule: less_induct)
  case (less n)
  show ?case
  proof (cases "n < 10")
    case True
    then show ?thesis using less.prems by (simp add: natDigits.simps of_char_digitChar)
  next
    case False
    then have "n div 10 < n" by simp
    moreover have "n mod 10 < 10" by simp
    ultimately show ?thesis
      using less.prems False less.IH [of "n div 10" c]
      by (auto simp: natDigits.simps [of 10 n] of_char_digitChar)
  qed
qed

lemma natDigits_10_hd: "0 < n \<Longrightarrow> hd (natDigits 10 n) \<noteq> CHR ''0''"
proof (induction n rule: less_induct)
  case (less n)
  show ?case
  proof (cases "n < 10")
    case True
    then have "(of_char (digitChar n) :: nat) \<noteq> of_char (CHR ''0'')"
      using less.prems by (simp add: of_char_digitChar)
    then have "digitChar n \<noteq> CHR ''0''" by auto
    then show ?thesis using True by (simp add: natDigits.simps)
  next
    case False
    then have "n div 10 < n" "0 < n div 10" by auto
    then show ?thesis
      using False less.IH [of "n div 10"]
      by (simp add: natDigits.simps [of 10 n] natDigits_not_Nil)
  qed
qed

lemma split_no_sep: "sep \<notin> set s \<Longrightarrow> split s sep = [s]"
  by (subst split.simps) simp

lemma split_at_sep:
  assumes "sep \<notin> set a"
  shows "split (a @ sep # b) sep = a # split b sep"
proof -
  have all: "\<And>x. x \<in> set a \<Longrightarrow> x \<noteq> sep"
    using assms by auto
  have t: "takeWhile (\<lambda>c. c \<noteq> sep) (a @ sep # b) = a"
    using all by (simp add: takeWhile_append2)
  have d: "dropWhile (\<lambda>c. c \<noteq> sep) (a @ sep # b) = sep # b"
    using all by (simp add: dropWhile_append2)
  show ?thesis
    by (subst split.simps) (simp add: t d)
qed

lemma trimSuffix_append: "trimSuffix (xs @ suf) suf = xs"
  by (simp add: trimSuffix_def hasSuffix_def)

lemma parseInt_fmt_d:
  assumes "- (2 ^ 63) \<le> k" "k < 2 ^ 63"
  shows "parseInt (fmt_d k) 10 64 = Inr k"
proof (cases "k < 0")
  case True
  have "nat (- k) \<le> 2 ^ 64 - 1"
    using assms by simp
  then have "parseUintLoop 10 (2 ^ 64 - 1) 0 (natDigits 10 (nat (- k))) = Inr (nat (- k))"
    by (intro parseUintLoop_natDigits) simp_all
  moreover have "nat (- k) \<le> 2 ^ 63"
    using assms by simp
  ultimately show ?thesis
    using True by (simp add: parseInt_def fmt_d_def parseUint_def natDigits_not_Nil)
next
  case False
  let ?ds = "natDigits 10 (nat k)"
  have ne: "?ds \<noteq> []" by (rule natDigits_not_Nil)
  then have "hd ?ds \<in> set ?ds" by simp
  then have "48 \<le> (of_char (hd ?ds) :: nat)" by (rule natDigits_10_chars [THEN conjunct1])
  then have sign: "hd ?ds \<noteq> CHR ''+''" "hd ?ds \<noteq> CHR ''-''"
    by auto
  have "nat k \<le> 2 ^ 64 - 1"
    using assms by simp
  then have "parseUintLoop 10 (2 ^ 64 - 1) 0 ?ds = Inr (nat k)"
    by (intro parseUintLoop_natDigits) simp_all
  moreover have "nat k < 2 ^ 63"
    using assms False by simp
  ultimately show ?thesis
    using False sign ne by (simp add: parseInt_def fmt_d_def parseUint_def)
qed

lemma fmt_d_chars: "c \<in> set (fmt_d k) \<Longrightarrow> c \<noteq> CHR ''.'' \<and> c \<noteq> CHR ''s''"
  by (auto simp: fmt_d_def dest!: natDigits_10_chars split: if_splits)

lemma dropWhile_replicate_append: "P c \<Longrightarrow> dropWhile P (replicate k c @ ys) = dropWhile P ys"
  by (induction k) simp_all

lemma trimLeft_fmt_09d:
  assumes "0 < n"
  shows "trimLeft (fmt_09d n) ''0'' = natDigits 10 (nat n)"
proof -
  have "0 < nat n" using assms by simp
  then have "hd (natDigits 10 (nat n)) \<noteq> CHR ''0''"
    by (rule natDigits_10_hd)
  then have "dropWhile (\<lambda>c. c = CHR ''0'') (natDigits 10 (nat n)) = natDigits 10 (nat n)"
    by (cases "natDigits 10 (nat n)") auto
  then show ?thesis
    using assms by (simp add: trimLeft_def fmt_09d_def dropWhile_replicate_append)
qed

lemma fmt_09d_chars: "0 \<le> n \<Longrightarrow> c \<in> set (fmt_09d n) \<Longrightarrow> c \<noteq> CHR ''.''"
  by (auto simp: fmt_09d_def dest!: natDigits_10_chars split: if_splits)

lemma parseInt_natDigits:
  assumes "n < 2 ^ 63"
  shows "parseInt (natDigits 10 n) 10 64 = Inr (int n)"
  using parseInt_fmt_d [of "int n"] assms by (simp add: fmt_d_def)

lemma length_split: "length (split s sep) = Suc (count_list s sep)"
proof (induction s sep rule: split.induct)
  case (1 s sep)
  show ?case
  proof (cases "sep \<in> set s")
    case True
    have "s = takeWhile (\<lambda>c. c \<noteq> sep) s @ dropWhile (\<lambda>c. c \<noteq> sep) s"
      by simp
    moreover have "dropWhile (\<lambda>c. c \<noteq> sep) s = sep # tl (dropWhile (\<lambda>c. c \<noteq> sep) s)"
      using True by (metis (mono_tags, lifting) dropWhile_eq_Nil_conv hd_dropWhile list.collapse)
    ultimately have s: "s = takeWhile (\<lambda>c. c \<noteq> sep) s @ sep # tl (dropWhile (\<lambda>c. c \<noteq> sep) s)"
      by simp
    have "count_list (takeWhile (\<lambda>c. c \<noteq> sep) s) sep = 0"
      by (metis (mono_tags, lifting) count_list_0_iff set_takeWhileD)
    then have "count_list s sep = Suc (count_list (tl (dropWhile (\<lambda>c. c \<noteq> sep) s)) sep)"
      by (subst s) simp
    then show ?thesis
      using True 1 by (subst split.simps) simp
  next
    case False
    then show ?thesis
      by (subst split.simps) (simp add: count_list_0_iff)
  qed
qed


lemma split_one_sep:
  assumes "count_list s sep = 1"
  shows "split s sep = [takeWhile (\<lambda>c. c \<noteq> sep) s, tl (dropWhile (\<lambda>c. c \<noteq> sep) s)]"
proof -
  have mem: "sep \<in> set s"
    using assms by (metis count_list_0_iff zero_neq_one)
  have "length (split s sep) = 2"
    using assms by (simp add: length_split)
  then have "length (split (tl (dropWhile (\<lambda>c. c \<noteq> sep) s)) sep) = 1"
    using mem by (subst (asm) split.simps) simp
  then have "count_list (tl (dropWhile (\<lambda>c. c \<noteq> sep) s)) sep = 0"
    by (simp add: length_split)
  then have "sep \<notin> set (tl (dropWhile (\<lambda>c. c \<noteq> sep) s))"
    by (simp add: count_list_0_iff)
  then show ?thesis
    using mem by (subst split.simps) (simp add: split_no_sep)
qed

lemma takeWhile_no_sep: "sep \<notin> set s \<Longrightarrow> takeWhile (\<lambda>c. c \<noteq> sep) s = s"
  by (induction s) auto

lemma dropWhile_no_sep: "sep \<notin> set s \<Longrightarrow> dropWhile (\<lambda>c. c \<noteq> sep) s = []"
  by (induction s) auto

lemma split_hd: "split s sep ! 0 = takeWhile (\<lambda>c. c \<noteq> sep) s"
proof (cases "sep \<in> set s")
  case True
  then show ?thesis by (subst split.simps) simp
next
  case False
  then show ?thesis
    by (simp add: split_no_sep takeWhile_no_sep)
qed

lemma parseInt_Nil: "parseInt [] base bitSize = Inl ErrSyntax"
  by (simp add: parseInt_def)

lemma unique_first_cut:
  "c \<notin> set xs \<Longrightarrow> c \<notin> set xs' \<Longrightarrow> xs @ c # ys = xs' @ c # ys' \<Longrightarrow> xs = xs'"
proof (induction xs arbitrary: xs')
  case Nil
  then show ?case by (cases xs') auto
next
  case (Cons x xs)
  then show ?case by (cases xs') auto
qed

lemma unique_last_cut:
  assumes "xs @ c # ys = xs' @ c # ys'" "c \<notin> set ys" "c \<notin> set ys'"
  shows "ys = ys'"
proof -
  have "rev ys @ c # rev xs = rev ys' @ c # rev xs'"
    using arg_cong [OF assms(1), of rev] by simp
  moreover have "c \<notin> set (rev ys)" "c \<notin> set (rev ys')"
    using assms by simp_all
  ultimately have "rev ys = rev ys'"
    using unique_first_cut [of c "rev ys" "rev ys'" "rev xs" "rev xs'"] by blast
  then show ?thesis by simp
qed

lemma zeros_dropWhile: "set zs \<subseteq> {CHR ''0''} \<Longrightarrow> dropWhile (\<lambda>c. c = CHR ''0'') zs = []"
  by (auto simp: dropWhile_eq_Nil_conv)

section \<open>Properties of the duration micro-format\<close>

lemmas eval_simps = stringToDuration_def durationToString_def split.simps trimSuffix_def hasSuffix_def
  trimLeft_def parseInt_def parseUint_def digitVal_def goQuot_def fmt_d_def fmt_09d_def natDigits.simps
  digitChar_def Let_def

lemma stringToDuration_example: "stringToDuration ''1.500000000s'' = Inr 1500000000"
  by (simp add: eval_simps)

lemma stringToDuration_spec_example: "stringToDuration_spec ''1.500000000s'' = Inr 1000000005"
  by (simp add: eval_simps stringToDuration_spec_def trimRight_def)

lemma durationToString_90s: "durationToString 90000000000 = ''90s''"
  by (simp add: eval_simps)
lemma durationToString_1500ms: "durationToString 1500000000 = ''1.500000000s''"
  by (simp add: eval_simps)
lemma stringToDuration_zero_fraction_example: "stringToDuration ''1.000000000s'' = Inl (ParseError ''1.000000000s'' ErrSyntax)"
  by (simp add: eval_simps)

lemma stringToDuration_durationToString:
  assumes "0 \<le> sint d"
  shows "stringToDuration (durationToString d) = Inr d"
proof -
  define n where "n = sint d"
  define q where "q = n div 1000000000"
  define r where "r = n mod 1000000000"
  have n0: "0 \<le> n" using assms by (simp add: n_def)
  have nlt: "n < 2 ^ 63"
    unfolding n_def using sint_lt [of d] by simp
  have quot: "goQuot n 1000000000 = q"
    using n0 by (cases "n = 0") (simp_all add: goQuot_def q_def)
  have rem: "n - q * 1000000000 = r"
    unfolding q_def r_def by (simp add: minus_div_mult_eq_mod)
  have pos: "q * 1000000000 < n \<longleftrightarrow> 0 < r"
    using rem by linarith
  have q0: "0 \<le> q" "q < 2 ^ 63"
    using n0 nlt unfolding q_def by auto
  have r0: "0 \<le> r" "r < 2 ^ 63"
    unfolding r_def using nlt by auto
  have recomposed: "(word_of_int q :: duration) * 1000000000 + word_of_int r = d"
  proof -
    have "(word_of_int q :: duration) * 1000000000 + word_of_int r = word_of_int (q * 1000000000 + r)"
      by simp
    also have "q * 1000000000 + r = n"
      unfolding q_def r_def by simp
    finally show ?thesis by (simp add: n_def)
  qed
  have pq: "parseInt (fmt_d q) 10 64 = Inr q"
    using q0 by (intro parseInt_fmt_d) simp_all
  have nodot: "CHR ''.'' \<notin> set (fmt_d q)"
    using fmt_d_chars by blast
  show ?thesis
  proof (cases "0 < r")
    case True
    have nodot2: "CHR ''.'' \<notin> set (fmt_09d r)"
      using fmt_09d_chars [OF r0(1)] by blast
    have str: "durationToString d = (fmt_d q @ CHR ''.'' # fmt_09d r) @ ''s''"
      using True by (simp add: durationToString_def Let_def n_def [symmetric] quot rem pos)
    have seg: "split (fmt_d q @ CHR ''.'' # fmt_09d r) (CHR ''.'') = [fmt_d q, fmt_09d r]"
      by (simp add: split_at_sep [OF nodot] split_no_sep [OF nodot2])
    have pr: "parseInt (trimLeft (fmt_09d r) ''0'') 10 64 = Inr r"
      using parseInt_natDigits [of "nat r"] r0 True by (simp add: trimLeft_fmt_09d)
    show ?thesis
      unfolding str trimSuffix_append stringToDuration_def seg
      by (simp add: pq pr recomposed)
  next
    case False
    then have rz: "r = 0" using r0 by simp
    then have nq: "n = q * 1000000000" using rem by simp
    have str: "durationToString d = fmt_d q @ ''s''"
      using rz by (simp add: durationToString_def Let_def n_def [symmetric] quot rem pos)
    have seg: "split (fmt_d q) (CHR ''.'') = [fmt_d q]"
      by (rule split_no_sep [OF nodot])
    show ?thesis
      unfolding str trimSuffix_append stringToDuration_def seg
      using recomposed rz by (simp add: pq)
  qed
qed

lemma natDigits_length: "n < 10 ^ k \<Longrightarrow> 0 < k \<Longrightarrow> length (natDigits 10 n) \<le> k"
proof (induction k arbitrary: n)
  case 0
  then show ?case by simp
next
  case (Suc k)
  show ?case
  proof (cases "n < 10")
    case True
    then show ?thesis by (simp add: natDigits.simps)
  next
    case False
    then have "0 < k" using Suc.prems by (cases k) auto
    moreover have "n div 10 < 10 ^ k" using Suc.prems by simp
    ultimately have "length (natDigits 10 (n div 10)) \<le> k" by (intro Suc.IH)
    then show ?thesis using False by (simp add: natDigits.simps [of 10 n])
  qed
qed

lemma length_fmt_09d: "0 \<le> r \<Longrightarrow> r < 1000000000 \<Longrightarrow> length (fmt_09d r) = 9"
  using natDigits_length [of "nat r" 9] by (simp add: fmt_09d_def)

lemma durationToString_nonneg:
  assumes "0 \<le> sint d"
  shows "durationToString d =
     (if sint d mod 1000000000 = 0 then fmt_d (sint d div 1000000000) @ ''s''
      else fmt_d (sint d div 1000000000) @ ''.'' @ fmt_09d (sint d mod 1000000000) @ ''s'')"
proof -
  have quot: "goQuot (sint d) 1000000000 = sint d div 1000000000"
    using assms by (cases "sint d = 0") (simp_all add: goQuot_def)
  have rem: "sint d - sint d div 1000000000 * 1000000000 = sint d mod 1000000000"
    by (simp add: minus_div_mult_eq_mod)
  have "0 \<le> sint d mod 1000000000" by simp
  then have pos: "0 < sint d mod 1000000000 \<longleftrightarrow> sint d mod 1000000000 \<noteq> 0"
    by linarith
  have "durationToString d =
     (if 0 < sint d mod 1000000000
      then fmt_d (sint d div 1000000000) @ ''.'' @ fmt_09d (sint d mod 1000000000) @ ''s''
      else fmt_d (sint d div 1000000000) @ ''s'')"
    unfolding durationToString_def quot Let_def rem by simp
  then show ?thesis
    unfolding pos by simp
qed

lemma stringToDuration_two_segments:
  assumes "CHR ''.'' \<notin> set a" "CHR ''.'' \<notin> set b"
  shows "stringToDuration (a @ CHR ''.'' # b @ ''s'') =
     (case parseInt a 10 64 of
        Inl e \<Rightarrow> Inl (ParseError (a @ CHR ''.'' # b @ ''s'') e)
      | Inr seconds \<Rightarrow>
          (case parseInt (trimLeft b ''0'') 10 64 of
             Inl e \<Rightarrow> Inl (ParseError (a @ CHR ''.'' # b @ ''s'') e)
           | Inr nanos \<Rightarrow> Inr (word_of_int seconds * 1000000000 + word_of_int nanos)))"
proof -
  have body: "trimSuffix (a @ CHR ''.'' # b @ ''s'') ''s'' = a @ CHR ''.'' # b"
    using trimSuffix_append [of "a @ CHR ''.'' # b" "''s''"] by simp
  have seg: "split (a @ CHR ''.'' # b) (CHR ''.'') = [a, b]"
    by (simp add: split_at_sep [OF assms(1)] split_no_sep [OF assms(2)])
  show ?thesis
    unfolding stringToDuration_def body seg
    by (simp add: Let_def split: sum.splits)
qed

lemma stringToDuration_many_segments:
  assumes "CHR ''.'' \<in> set a"
  shows "stringToDuration (a @ CHR ''.'' # b @ ''s'') = Inl (SegmentsError (a @ CHR ''.'' # b @ ''s''))"
proof -
  have body: "trimSuffix (a @ CHR ''.'' # b @ ''s'') ''s'' = a @ CHR ''.'' # b"
    using trimSuffix_append [of "a @ CHR ''.'' # b" "''s''"] by simp
  have "count_list a (CHR ''.'') \<noteq> 0"
    using assms by (simp add: count_list_0_iff)
  then have "length (split (a @ CHR ''.'' # b) (CHR ''.'')) \<ge> 3"
    by (simp add: length_split)
  then show ?thesis
    unfolding stringToDuration_def body by (simp add: Let_def)
qed

lemma zero_fraction:
  assumes "set zs \<subseteq> {CHR ''0''}"
  shows "isl (stringToDuration (a @ ''.'' @ zs @ ''s''))"
    and "CHR ''.'' \<notin> set a \<Longrightarrow> parseInt a 10 64 = Inr secs \<Longrightarrow>
           stringToDuration (a @ ''.'' @ zs @ ''s'') = Inl (ParseError (a @ ''.'' @ zs @ ''s'') ErrSyntax)"
    and "durationToString d \<noteq> a @ ''.'' @ zs @ ''s''"
proof -
  let ?s = "a @ ''.'' @ zs @ ''s''"
  have nz: "CHR ''.'' \<notin> set zs"
    using assms by auto
  have tz: "trimLeft zs ''0'' = []"
    using assms by (auto simp: trimLeft_def dropWhile_eq_Nil_conv)
  show "isl (stringToDuration ?s)"
  proof (cases "CHR ''.'' \<in> set a")
    case True
    then show ?thesis
      by (simp add: stringToDuration_many_segments)
  next
    case False
    then show ?thesis
      by (simp add: stringToDuration_two_segments nz tz parseInt_Nil split: sum.splits)
  qed
  show "stringToDuration ?s = Inl (ParseError ?s ErrSyntax)"
    if nodot: "CHR ''.'' \<notin> set a" and pa: "parseInt a 10 64 = Inr secs"
    by (simp add: stringToDuration_two_segments nodot nz tz pa parseInt_Nil)
  show "durationToString d \<noteq> ?s"
  proof
    assume eq: "durationToString d = ?s"
    define q where "q = goQuot (sint d) 1000000000"
    define r where "r = sint d - q * 1000000000"
    have nodot: "CHR ''.'' \<notin> set (fmt_d q)"
      using fmt_d_chars by blast
    have pos: "q * 1000000000 < sint d \<longleftrightarrow> 0 < r"
      unfolding r_def by linarith
    show False
    proof (cases "0 < r")
      case True
      then have "durationToString d = fmt_d q @ CHR ''.'' # fmt_09d r @ ''s''"
        by (simp add: durationToString_def Let_def q_def [symmetric] pos r_def [symmetric])
      with eq have "fmt_d q @ CHR ''.'' # fmt_09d r = a @ CHR ''.'' # zs"
        by simp
      moreover have "CHR ''.'' \<notin> set (fmt_09d r)"
        using fmt_09d_chars [of r] True by auto
      ultimately have "fmt_09d r = zs"
        using nz by (rule unique_last_cut)
      moreover have "hd (natDigits 10 (nat r)) \<in> set (fmt_09d r)"
        using True by (simp add: fmt_09d_def natDigits_not_Nil)
      moreover have "hd (natDigits 10 (nat r)) \<noteq> CHR ''0''"
        using True by (intro natDigits_10_hd) simp
      ultimately show False
        using assms by auto
    next
      case False
      then have "durationToString d = fmt_d q @ ''s''"
        by (simp add: durationToString_def Let_def q_def [symmetric] pos r_def [symmetric])
      with eq have "fmt_d q = a @ CHR ''.'' # zs"
        by simp
      then show False
        using nodot by (metis in_set_conv_decomp)
    qed
  qed
qed

text \<open>
  Claim C2.  Decoding the encoding of a non-negative duration gives the duration back;
  ninety seconds are written \<open>90s\<close> and one and a half seconds \<open>1.500000000s\<close>; a
  non-negative duration of whole seconds is written as the seconds and \<open>s\<close>, any other
  as the seconds, a point, the nanoseconds on nine digits and \<open>s\<close>.
\<close>

theorem duration_roundtrip:
  "(0 \<le> sint d \<longrightarrow> stringToDuration (durationToString d) = Inr d)
   \<and> durationToString 90000000000 = ''90s''
   \<and> durationToString 1500000000 = ''1.500000000s''
   \<and> (0 \<le> sint d \<longrightarrow>
        durationToString d =
          (if sint d mod 1000000000 = 0 then fmt_d (sint d div 1000000000) @ ''s''
           else fmt_d (sint d div 1000000000) @ ''.'' @ fmt_09d (sint d mod 1000000000) @ ''s'')
        \<and> length (fmt_09d (sint d mod 1000000000)) = 9)"
  using stringToDuration_durationToString [of d] durationToString_90s durationToString_1500ms durationToString_nonneg [of d]
    length_fmt_09d [of "sint d mod 1000000000"]
  by simp

theorem duration_roundtrip_witness:
  "0 \<le> sint (1500000000 :: duration)
   \<and> stringToDuration (durationToString 1500000000) = Inr 1500000000
   \<and> length (fmt_09d (sint (1500000000 :: duration) mod 1000000000)) = 9"
proof -
  have nonneg: "0 \<le> sint (1500000000 :: duration)"
    by simp
  with duration_roundtrip [of 1500000000] show ?thesis
    by blast
qed

text \<open>
  Claim C8, as the code has it.  Decoding strips one trailing \<open>s\<close> and splits at the
  points; three segments or more are a format error; the first segment is parsed as the
  seconds; with two segments the second is parsed as nanoseconds after its \<^emph>\<open>leading\<close>
  zeros are stripped; a segment that does not parse is rejected with the parse error.
\<close>

theorem stringToDuration_steps:
  "stringToDuration s =
     (let body = trimSuffix s ''s''; dots = count_list body (CHR ''.'')
      in
        if dots \<ge> 2 then Inl (SegmentsError s)
        else
          case parseInt (takeWhile (\<lambda>c. c \<noteq> CHR ''.'') body) 10 64 of
            Inl e \<Rightarrow> Inl (ParseError s e)
          | Inr seconds \<Rightarrow>
              if dots = 0 then Inr (word_of_int seconds * 1000000000)
              else
                case parseInt (dropWhile (\<lambda>c. c = CHR ''0'')
                       (tl (dropWhile (\<lambda>c. c \<noteq> CHR ''.'') body))) 10 64 of
                  Inl e \<Rightarrow> Inl (ParseError s e)
                | Inr nanos \<Rightarrow> Inr (word_of_int seconds * 1000000000 + word_of_int nanos))"
proof -
  define body where "body = trimSuffix s ''s''"
  define dots where "dots = count_list body (CHR ''.'')"
  have len: "length (split body (CHR ''.'')) = Suc dots"
    by (simp add: length_split dots_def)
  consider "dots \<ge> 2" | "dots = 0" | "dots = 1"
    by linarith
  then show ?thesis
  proof cases
    case 1
    then show ?thesis
      using len by (simp add: stringToDuration_def Let_def body_def [symmetric] dots_def [symmetric])
  next
    case 2
    then show ?thesis
      using len
      by (simp add: stringToDuration_def Let_def body_def [symmetric] dots_def [symmetric] split_hd
          split: sum.splits)
  next
    case 3
    then have seg: "split body (CHR ''.'') =
        [takeWhile (\<lambda>c. c \<noteq> CHR ''.'') body, tl (dropWhile (\<lambda>c. c \<noteq> CHR ''.'') body)]"
      unfolding dots_def by (rule split_one_sep)
    show ?thesis
      using 3
      by (simp add: stringToDuration_def Let_def body_def [symmetric] dots_def [symmetric] seg
          trimLeft_def split: sum.splits)
  qed
qed

theorem stringToDuration_steps_witness:
  "stringToDuration ''1.000000005s'' = Inr 1000000005"
  using stringToDuration_steps [of "''1.000000005s''"]
  by (simp add: trimSuffix_def hasSuffix_def parseInt_def parseUint_def digitVal_def Let_def)

text \<open>
  The rule with trailing zeros stripped, as written in the specification, differs from the
  code: on \<open>1.500000000s\<close> the code reads 500000000 nanoseconds, the rule 5.
\<close>

theorem stringToDuration_trailing_zeros_counterexample:
  "stringToDuration ''1.500000000s'' = Inr 1500000000
   \<and> stringToDuration_spec ''1.500000000s'' = Inr 1000000005"
  by (simp add: stringToDuration_example stringToDuration_spec_example)

text \<open>
  Claim C10.  A string whose fractional segment is made of zeros only is rejected: decoding
  it is an error, the syntax error of parsing the empty string when the seconds parse;
  and no duration is encoded as such a string.
\<close>

theorem zero_fraction_rejected:
  "set zs \<subseteq> {CHR ''0''} \<Longrightarrow>
     isl (stringToDuration (a @ ''.'' @ zs @ ''s''))
     \<and> (CHR ''.'' \<notin> set a \<and> \<not> isl (parseInt a 10 64) \<longrightarrow>
          stringToDuration (a @ ''.'' @ zs @ ''s'') = Inl (ParseError (a @ ''.'' @ zs @ ''s'') ErrSyntax))
     \<and> (\<forall>d. durationToString d \<noteq> a @ ''.'' @ zs @ ''s'')"
proof (cases "parseInt a 10 64")
  case (Inl e)
  assume "set zs \<subseteq> {CHR ''0''}"
  with Inl show ?thesis
    using zero_fraction(1,3) [where zs = zs and a = a] by simp
next
  case (Inr secs)
  assume "set zs \<subseteq> {CHR ''0''}"
  with Inr show ?thesis
    using zero_fraction(1,3) [where zs = zs and a = a]
      zero_fraction(2) [where zs = zs and a = a and secs = secs] by simp
qed

theorem zero_fraction_rejected_witness:
  "set ''000000000'' \<subseteq> {CHR ''0''}
   \<and> stringToDuration ''1.000000000s'' = Inl (ParseError ''1.000000000s'' ErrSyntax)
   \<and> durationToString 1000000000 \<noteq> ''1.000000000s''"
  using zero_fraction_rejected [where zs = "''000000000''" and a = "''1''"]
  by (simp add: parseInt_def parseUint_def digitVal_def Let_def)
section \<open>Properties of the validation\<close>

lemmas validate_simps = validateMessage_def countNonEmpty_def validateNotification_def
  validateAndroidConfig_def validateWebpushConfig_def validateAPNSConfig_def Let_def

lemma validateLightSettings_not_targets: "validateLightSettings l \<noteq> Some TargetsError"
  by (simp add: validateLightSettings_def split: option.splits)

lemma validateNotification_not_targets: "validateNotification parse n \<noteq> Some TargetsError"
  by (simp add: validateNotification_def Let_def split: option.splits)

lemma validateAndroidNotification_not_targets:
  "validateAndroidNotification parse n \<noteq> Some TargetsError"
  by (simp add: validateAndroidNotification_def Let_def validateLightSettings_not_targets
      split: option.splits)

lemma validateAndroidConfig_not_targets: "validateAndroidConfig parse c \<noteq> Some TargetsError"
  by (simp add: validateAndroidConfig_def validateAndroidNotification_not_targets
      split: option.splits)

lemma validateWebpushConfig_not_targets: "validateWebpushConfig parse w \<noteq> Some TargetsError"
  by (simp add: validateWebpushConfig_def Let_def split: option.splits)

lemma validateApsAlert_not_targets: "validateApsAlert a \<noteq> Some TargetsError"
  by (simp add: validateApsAlert_def split: option.splits)

lemma validateAps_not_targets: "validateAps a \<noteq> Some TargetsError"
  by (simp add: validateAps_def validateApsAlert_not_targets split: option.splits)

lemma validateAPNSPayload_not_targets: "validateAPNSPayload p \<noteq> Some TargetsError"
  by (simp add: validateAPNSPayload_def validateAps_not_targets split: option.splits)

lemma validateAPNSConfig_not_targets: "validateAPNSConfig parse c \<noteq> Some TargetsError"
  by (simp add: validateAPNSConfig_def Let_def validateAPNSPayload_not_targets split: option.splits)

lemma countNonEmpty_three:
  "countNonEmpty [a, b, c] = int (length (filter (\<lambda>s. s \<noteq> []) [a, b, c]))"
  by (simp add: countNonEmpty_def)


text \<open>
  Claim C1.  For every message that is present, validation fails on the targeting rule
  exactly when the number of non-empty fields among token, topic and condition is not one;
  with exactly one such field the rule passes, whatever the later rules decide.
\<close>

theorem targeting_exclusive:
  "(validateMessage parse (Some m) = Some TargetsError)
     = (length (filter (\<lambda>s. s \<noteq> []) [Token m, Topic m, Condition m]) \<noteq> 1)"
proof -
  have count: "(countNonEmpty [Token m, Condition m, Topic m] \<noteq> 1)
      = (length (filter (\<lambda>s. s \<noteq> []) [Token m, Topic m, Condition m]) \<noteq> 1)"
    by (simp add: countNonEmpty_def)
  show ?thesis
  proof (cases "countNonEmpty [Token m, Condition m, Topic m] \<noteq> 1")
    case True
    then have "validateMessage parse (Some m) = Some TargetsError"
      by (simp add: validateMessage_def Let_def)
    with True count show ?thesis by simp
  next
    case False
    then have "validateMessage parse (Some m) \<noteq> Some TargetsError"
      using validateNotification_not_targets [of parse "Message.Notification m"]
        validateAndroidConfig_not_targets [of parse "Android m"]
        validateWebpushConfig_not_targets [of parse "Webpush m"]
        validateAPNSConfig_not_targets [of parse "APNS m"]
      by (auto simp: validateMessage_def Let_def split: option.splits)
    with False count show ?thesis by simp
  qed
qed


theorem targeting_exclusive_witness:
  "validateMessage (\<lambda>link. None) (Some (emptyMessage\<lparr>Token := ''abc''\<rparr>)) = None
   \<and> validateMessage (\<lambda>link. None) (Some emptyMessage) = Some TargetsError
   \<and> validateMessage (\<lambda>link. None) (Some (emptyMessage\<lparr>Token := ''abc'', Topic := ''news''\<rparr>))
       = Some TargetsError"
  using targeting_exclusive [of "\<lambda>link. None" "emptyMessage\<lparr>Token := ''abc''\<rparr>"]
    targeting_exclusive [of "\<lambda>link. None" emptyMessage]
    targeting_exclusive [of "\<lambda>link. None" "emptyMessage\<lparr>Token := ''abc'', Topic := ''news''\<rparr>"]
  by (simp add: emptyMessage_def validateMessage_def countNonEmpty_def validateNotification_def
      validateAndroidConfig_def validateWebpushConfig_def validateAPNSConfig_def)

lemma validateWebpushConfig_link:
  assumes "WebpushConfig.Notification w = Some n"
    and "Direction n \<in> {[], ''ltr'', ''rtl'', ''auto''}"
    and "\<not> collides (WebpushNotification_standardFields n) (WebpushNotification.CustomData n)"
    and "WebpushConfig.FCMOptions w = Some opts"
  shows "validateWebpushConfig parse (Some w) =
     (case parse (Link opts) of
        None \<Rightarrow> Some (InvalidLinkURL (Link opts))
      | Some p \<Rightarrow> if Scheme p \<noteq> ''https'' then Some (InvalidLinkScheme (Link opts)) else None)"
  using assms by (auto simp: validateWebpushConfig_def Let_def split: option.splits)


text \<open>
  Claim C5, at the inputs where the code departs from it.  A message with one target and a
  web-push block that has options with the link \<open>http://example.com\<close> but no
  notification override passes validation, though the link's scheme is not \<open>https\<close>:
  the function returns before it looks at the options.  A message whose web-push block has
  a notification override and options with no link set fails with the invalid-link error,
  since \<^verbatim>\<open>url.ParseRequestURI\<close> rejects the empty string.
\<close>

theorem webpush_link_check:
  "validateMessage parse
     (Some (emptyMessage\<lparr>Token := ''abc'',
        Webpush := Some (emptyWebpushConfig\<lparr>WebpushConfig.FCMOptions :=
          Some \<lparr>Link = ''http://example.com''\<rparr>\<rparr>)\<rparr>)) = None
   \<and> (parse [] = None \<longrightarrow>
        validateMessage parse
          (Some (emptyMessage\<lparr>Token := ''abc'',
             Webpush := Some (emptyWebpushConfig\<lparr>WebpushConfig.Notification :=
               Some emptyWebpushNotification,
               WebpushConfig.FCMOptions := Some \<lparr>Link = []\<rparr>\<rparr>)\<rparr>))
          = Some (InvalidLinkURL []))"
  by (simp add: validate_simps emptyMessage_def emptyWebpushConfig_def emptyWebpushNotification_def
      collides_def WebpushNotification_standardFields_def addNonEmpty_def addTrue_def)

theorem webpush_link_check_witness:
  "validateMessage (\<lambda>link. None)
     (Some (emptyMessage\<lparr>Token := ''abc'',
        Webpush := Some (emptyWebpushConfig\<lparr>WebpushConfig.FCMOptions :=
          Some \<lparr>Link = ''http://example.com''\<rparr>\<rparr>)\<rparr>)) = None
   \<and> validateMessage (\<lambda>link. None)
          (Some (emptyMessage\<lparr>Token := ''abc'',
             Webpush := Some (emptyWebpushConfig\<lparr>WebpushConfig.Notification :=
               Some emptyWebpushNotification,
               WebpushConfig.FCMOptions := Some \<lparr>Link = []\<rparr>\<rparr>)\<rparr>))
          = Some (InvalidLinkURL [])"
  using webpush_link_check [of "\<lambda>link. None"] by simp

section \<open>Properties of the colour micro-format\<close>

lemmas color_simps = toString_def goInt_def fmt_X_def natDigits.simps digitChar_def Let_def

lemma newColor_blue: "newColor ''#0000FF'' = Value \<lparr>Red = 0, Green = 0, Blue = 1, Alpha = 1\<rparr>"
  by (simp add: newColor_def goSlice_def parseInt_def parseUint_def digitVal_def Let_def)

lemma colorPattern_short: "\<not> colorPattern ''#00FF'' \<and> \<not> colorWithAlphaPattern ''#00FF''"
  by (simp add: colorPattern_def colorWithAlphaPattern_def)

text \<open>
  Claim C7, at an input where the code departs from it.  The channels are printed with
  \<^verbatim>\<open>%X\<close>, which does not pad: a channel below sixteen takes one digit.  The opaque
  blue that \<^const>\<open>newColor\<close> reads from \<open>#0000FF\<close> is written \<open>#00FF\<close>, four digits
  and not six, and with alpha zero it is written \<open>#00FF0\<close>, five digits and not eight.
\<close>

theorem toString_short:
  "toString \<lparr>Red = 0, Green = 0, Blue = 1, Alpha = 1\<rparr> = ''#00FF''
   \<and> toString \<lparr>Red = 0, Green = 0, Blue = 1, Alpha = 0\<rparr> = ''#00FF0''"
  by (simp add: color_simps)


lemma newColor_short:
  assumes "length clr < 7"
  shows "newColor clr =
     (if length clr < 3 then Panic
      else case parseInt (take 2 (drop 1 clr)) 16 32 of
             Inl err \<Rightarrow> Failed (ParseError clr err)
           | Inr red \<Rightarrow>
               if length clr < 5 then Panic
               else case parseInt (take 2 (drop 3 clr)) 16 32 of
                      Inl err \<Rightarrow> Failed (ParseError clr err)
                    | Inr green \<Rightarrow> Panic)"
  using assms by (simp add: newColor_def goSlice_def split: sum.splits)


text \<open>
  Claim C9, as the code has it.  For a colour string shorter than seven bytes the encoder
  never returns a document.  It panics on the slice out of range when the string is
  shorter than three bytes; from three bytes on, the two-byte groups that are in range are
  parsed first, and the encoder returns the parse error of the first group that is not
  hexadecimal, and panics if they all are.
\<close>

theorem LightSettings_MarshalJSON_short:
  assumes "length (LightSettings.Color l) < 7"
  shows "LightSettings_MarshalJSON l =
     (if length (LightSettings.Color l) < 3 then Panic
      else case parseInt (take 2 (drop 1 (LightSettings.Color l))) 16 32 of
             Inl err \<Rightarrow> Failed (ParseError (LightSettings.Color l) err)
           | Inr red \<Rightarrow>
               if length (LightSettings.Color l) < 5 then Panic
               else case parseInt (take 2 (drop 3 (LightSettings.Color l))) 16 32 of
                      Inl err \<Rightarrow> Failed (ParseError (LightSettings.Color l) err)
                    | Inr green \<Rightarrow> Panic)
   \<and> (\<forall>doc. LightSettings_MarshalJSON l \<noteq> Value doc)
   \<and> (length (LightSettings.Color l) < 3 \<longrightarrow> LightSettings_MarshalJSON l = Panic)"
  using assms
  by (simp add: LightSettings_MarshalJSON_def newColor_short split: sum.splits)

theorem LightSettings_MarshalJSON_short_witness:
  "length (LightSettings.Color \<lparr>LightSettings.Color = [], LightOnDurationMillis = 0, LightOffDurationMillis = 0\<rparr>) < 7
   \<and> LightSettings_MarshalJSON \<lparr>LightSettings.Color = [], LightOnDurationMillis = 0, LightOffDurationMillis = 0\<rparr>
       = Panic"
  using LightSettings_MarshalJSON_short
    [of "\<lparr>LightSettings.Color = [], LightOnDurationMillis = 0, LightOffDurationMillis = 0\<rparr>"]
  by simp


text \<open>
  The colour \<open>#zz\<close> is shorter than seven bytes, and the encoder returns an error for it.
\<close>

theorem LightSettings_MarshalJSON_error_counterexample:
  "length ''#zz'' < 7
   \<and> LightSettings_MarshalJSON
        \<lparr>LightSettings.Color = ''#zz'', LightOnDurationMillis = 0, LightOffDurationMillis = 0\<rparr>
       = Failed (ParseError ''#zz'' ErrSyntax)"
  by (simp add: LightSettings_MarshalJSON_def newColor_def goSlice_def parseInt_def parseUint_def
      digitVal_def Let_def)


lemma LightSettings_MarshalJSON_valid:
  "LightSettings_MarshalJSON \<lparr>LightSettings.Color = ''#0000FF'', LightOnDurationMillis = 1500, LightOffDurationMillis = 0\<rparr>
     = Value (JObj [(''color'', JObj [(''red'', JInt 0), (''green'', JInt 0), (''blue'', JInt 1), (''alpha'', JInt 1)]),
         (''light_on_duration'', JStr ''1.500000000s''), (''light_off_duration'', JStr ''0s'')])"
  by (simp add: LightSettings_MarshalJSON_def newColor_blue color_json_def marshalFloat_def eval_simps)
section \<open>Properties of the decoding\<close>

lemmas dec_simps = unmarshal_def decStruct_def decString_def decBool_def decInt_def decFloat_def
  decAny_def decPtr_def decPtrCustom_def decSlice_def decMap_def decValue_def decAnyMap_def
  decStringMap_def findName_def intoField_def deleteKeys_def upperByte_def Let_def
  addNonEmpty_def addTrue_def

lemma decMembers_False:
  "decMembers names setField ((k, j) # ms) s = DCont False s' \<Longrightarrow>
     (findName names k = None \<and> decMembers names setField ms s = DCont False s')
     \<or> (\<exists>name s1. findName names k = Some name \<and> setField name j s = DCont False s1
           \<and> decMembers names setField ms s1 = DCont False s')"
  by (auto split: option.splits dres.splits)

lemma decMembers_last:
  assumes step: "\<And>name j s s'. setField name j s = DCont False s' \<Longrightarrow>
            get s' = (if name = target \<and> j \<noteq> JNull then conv j else get s)
            \<and> (name = target \<and> j \<noteq> JNull \<longrightarrow> good j)"
    and dec: "decMembers names setField ms s = DCont False s'"
  shows "get s' = (case wireValue names target ms of None \<Rightarrow> get s | Some j \<Rightarrow> conv j)
         \<and> (\<forall>j. wireValue names target ms = Some j \<longrightarrow> good j)"
  using dec
proof (induction ms arbitrary: s)
  case Nil
  then show ?case by simp
next
  case (Cons m ms)
  obtain k j where m: "m = (k, j)" by (cases m)
  from Cons.prems [unfolded m, THEN decMembers_False]
  show ?case
  proof (elim disjE conjE exE)
    assume "findName names k = None" "decMembers names setField ms s = DCont False s'"
    then show ?thesis
      using Cons.IH [of s] by (simp add: m split: option.splits)
  next
    fix name s1
    assume f: "findName names k = Some name"
      and s: "setField name j s = DCont False s1"
      and d: "decMembers names setField ms s1 = DCont False s'"
    from step [OF s] Cons.IH [OF d] show ?thesis
      by (auto simp: m f split: option.splits)
  qed
qed

lemma decMembers_unchanged:
  assumes step: "\<And>name j s s'. name \<in> set names \<Longrightarrow> name \<noteq> target \<Longrightarrow>
            setField name j s = DCont False s' \<Longrightarrow> get s' = get s"
    and dec: "decMembers names setField ms s = DCont False s'"
    and none: "\<And>k j. (k, j) \<in> set ms \<Longrightarrow> findName names k \<noteq> Some target"
  shows "get s' = get s"
  using dec none
proof (induction ms arbitrary: s)
  case Nil
  then show ?case by simp
next
  case (Cons m ms)
  obtain k j where m: "m = (k, j)" by (cases m)
  have rest: "findName names k \<noteq> Some target" if "(k, j) \<in> set ms" for k j
    using that Cons.prems(2) [of k j] by simp
  from Cons.prems(1) [unfolded m, THEN decMembers_False]
  show ?case
  proof (elim disjE conjE exE)
    assume "decMembers names setField ms s = DCont False s'"
    then show ?thesis
      using Cons.IH [of s] rest by blast
  next
    fix name s1
    assume f: "findName names k = Some name"
      and s: "setField name j s = DCont False s1"
      and d: "decMembers names setField ms s1 = DCont False s'"
    have "name \<noteq> target"
      using f Cons.prems(2) [of k j] by (auto simp: m)
    moreover have "name \<in> set names"
      using f by (auto simp: findName_def find_Some_iff split: if_splits)
    ultimately have "get s1 = get s"
      using step s by blast
    moreover have "get s' = get s1"
      using Cons.IH [OF d] rest by blast
    ultimately show ?thesis by simp
  qed
qed

lemma unmarshal_Value:
  "unmarshal dec j old = Value v \<longleftrightarrow> dec j old = DCont False v"
  by (simp add: unmarshal_def split: dres.splits)

lemma decEntries_decValue:
  "decEntries decValue z ms m = DCont False (fold (\<lambda>(k, v). AList.update k v) ms m)"
  by (induction ms arbitrary: m) (auto simp: decValue_def)

lemma map_of_fold_update:
  "map_of (fold (\<lambda>(k, v). AList.update k v) ms m) = map_of m ++ map_of (rev ms)"
  by (induction ms arbitrary: m) (auto simp: update_conv' map_add_def fun_eq_iff split: option.splits)

lemma distinct_fold_update:
  "distinct (map fst m) \<Longrightarrow> distinct (map fst (fold (\<lambda>(k, v). AList.update k v) ms m))"
  by (induction ms arbitrary: m) (auto simp: distinct_update)

lemma map_of_deleteKeys:
  "map_of (deleteKeys ks m) k = (if k \<in> set ks then None else map_of m k)"
  unfolding deleteKeys_def
  by (induction ks arbitrary: m) (auto simp: delete_conv')

lemma deleteKeys_filter: "deleteKeys ks m = filter (\<lambda>(k, v). k \<notin> set ks) m"
  unfolding deleteKeys_def
proof (induction ks arbitrary: m)
  case Nil
  then show ?case by simp
next
  case (Cons a ks)
  have "fold AList.delete (a # ks) m = fold AList.delete ks (AList.delete a m)"
    by simp
  also have "\<dots> = filter (\<lambda>(k, v). k \<notin> set ks) (AList.delete a m)"
    by (rule Cons.IH)
  also have "\<dots> = filter (\<lambda>(k, v). k \<notin> set (a # ks)) m"
    unfolding AList.delete_eq filter_filter by (rule filter_cong) auto
  finally show ?case .
qed

lemma find_unique:
  assumes "x \<in> set xs" "P x" "\<forall>y \<in> set xs. P y \<longrightarrow> y = x"
  shows "find P xs = Some x"
  using assms
proof (induction xs)
  case Nil
  then show ?case by simp
next
  case (Cons a xs)
  show ?case
  proof (cases "P a")
    case True
    with Cons.prems(3) have "a = x" by simp
    with True show ?thesis by simp
  next
    case False
    with Cons.prems have mem: "x \<in> set xs" and uniq: "\<forall>y \<in> set xs. P y \<longrightarrow> y = x"
      by auto
    have "find P xs = Some x"
      by (rule Cons.IH [OF mem Cons.prems(2) uniq])
    with False show ?thesis by simp
  qed
qed

lemma findName_fold:
  assumes d: "distinct (map foldName names)" and mem: "name \<in> set names"
  shows "findName names k = Some name \<longleftrightarrow> foldName k = foldName name"
proof
  assume f: "findName names k = Some name"
  show "foldName k = foldName name"
  proof (cases "k \<in> set names")
    case True
    with f show ?thesis by (simp add: findName_def)
  next
    case False
    with f have "find (\<lambda>n. foldName n = foldName k) names = Some name"
      by (simp add: findName_def)
    then have "foldName name = foldName k"
      unfolding find_Some_iff by blast
    then show ?thesis by simp
  qed
next
  assume e: "foldName k = foldName name"
  have inj: "inj_on foldName (set names)"
    using d by (simp add: distinct_map)
  show "findName names k = Some name"
  proof (cases "k \<in> set names")
    case True
    have "k = name"
      by (rule inj_onD [OF inj e True mem])
    with True show ?thesis by (simp add: findName_def)
  next
    case False
    have "find (\<lambda>n. foldName n = foldName k) names = Some name"
    proof (rule find_unique [OF mem])
      show "foldName name = foldName k" using e by simp
    next
      show "\<forall>y \<in> set names. foldName y = foldName k \<longrightarrow> y = name"
      proof (intro ballI impI)
        fix y assume y: "y \<in> set names" and "foldName y = foldName k"
        then have "foldName y = foldName name"
          using e by simp
        then show "y = name"
          by (rule inj_onD [OF inj _ y mem])
      qed
    qed
    with False show ?thesis by (simp add: findName_def)
  qed
qed

lemma findName_topic:
  "findName messageTmp_names k = Some ''topic'' \<longleftrightarrow> foldName k = ''TOPIC''"
proof -
  have "distinct (map foldName messageTmp_names)"
    by (simp add: messageTmp_names_def upperByte_def)
  moreover have "''topic'' \<in> set messageTmp_names"
    by (simp add: messageTmp_names_def)
  ultimately have "findName messageTmp_names k = Some ''topic'' \<longleftrightarrow> foldName k = foldName ''topic''"
    by (rule findName_fold)
  then show ?thesis by (simp add: upperByte_def)
qed

lemma findName_content_available:
  "findName apsTmp_names k = Some ''content-available'' \<longleftrightarrow> foldName k = ''CONTENT-AVAILABLE''"
proof -
  have "distinct (map foldName apsTmp_names)"
    by (simp add: apsTmp_names_def upperByte_def)
  moreover have "''content-available'' \<in> set apsTmp_names"
    by (simp add: apsTmp_names_def)
  ultimately have "findName apsTmp_names k = Some ''content-available''
      \<longleftrightarrow> foldName k = foldName ''content-available''"
    by (rule findName_fold)
  then show ?thesis by (simp add: upperByte_def)
qed

lemma map_of_first:
  "map_of al k = (case filter (\<lambda>y. fst y = k) al of [] \<Rightarrow> None | x # xs \<Rightarrow> Some (snd x))"
  by (induction al) auto

lemma map_of_marshalMap: "marshalMap m = JObj ms \<Longrightarrow> map_of ms = map_of m"
  by (auto simp: marshalMap_def fun_eq_iff map_of_first sort_key_stable)

lemma unmarshal_decAnyMap:
  "unmarshal decAnyMap (JObj ms) [] = Value (fold (\<lambda>(k, v). AList.update k v) ms [])"
  by (simp add: unmarshal_def decAnyMap_def decMap_def decEntries_decValue)

lemma fst_set_fold_update:
  "fst ` set (fold (\<lambda>(k, v). AList.update k v) ms m) = fst ` set m \<union> fst ` set ms"
proof (induction ms arbitrary: m)
  case Nil
  then show ?case by simp
next
  case (Cons x ms)
  obtain k v where x: "x = (k, v)" by (cases x)
  have "fst ` set (fold (\<lambda>(k, v). AList.update k v) (x # ms) m)
      = fst ` set (AList.update k v m) \<union> fst ` set ms"
    by (simp add: x Cons.IH)
  also have "\<dots> = fst ` set m \<union> fst ` set (x # ms)"
    unfolding dom_update by (auto simp: x)
  finally show ?case .
qed

lemma WebpushNotification_standardFields_CustomData [simp]:
  "WebpushNotification_standardFields (n\<lparr>WebpushNotification.CustomData := c\<rparr>)
     = WebpushNotification_standardFields n"
  by (simp add: WebpushNotification_standardFields_def)

lemma fst_set_addNonEmpty: "k \<in> fst ` set (addNonEmpty key v) \<longleftrightarrow> k = key \<and> v \<noteq> []"
  by (auto simp: addNonEmpty_def)

lemma fst_set_addTrue: "k \<in> fst ` set (addTrue key v) \<longleftrightarrow> k = key \<and> v"
  by (auto simp: addTrue_def)

lemma fst_set_if: "k \<in> fst ` set (if c then [(key, v)] else []) \<longleftrightarrow> k = key \<and> c"
  by auto

lemma fst_set_case_option:
  "k \<in> fst ` set (case x of None \<Rightarrow> [] | Some y \<Rightarrow> [(key, f y)]) \<longleftrightarrow> k = key \<and> x \<noteq> None"
  by (cases x) auto

lemma WebpushNotification_standardFields_keys:
  "k \<in> fst ` set (WebpushNotification_standardFields n) \<longleftrightarrow>
     (k = ''actions'' \<and> Actions n \<noteq> [])
     \<or> (k = ''title'' \<and> WebpushNotification.Title n \<noteq> [])
     \<or> (k = ''body'' \<and> WebpushNotification.Body n \<noteq> [])
     \<or> (k = ''icon'' \<and> WebpushNotification.Icon n \<noteq> [])
     \<or> (k = ''badge'' \<and> WebpushNotification.Badge n \<noteq> [])
     \<or> (k = ''dir'' \<and> Direction n \<noteq> [])
     \<or> (k = ''image'' \<and> Image n \<noteq> [])
     \<or> (k = ''lang'' \<and> Language n \<noteq> [])
     \<or> (k = ''renotify'' \<and> Renotify n)
     \<or> (k = ''requireInteraction'' \<and> RequireInteraction n)
     \<or> (k = ''silent'' \<and> Silent n)
     \<or> (k = ''tag'' \<and> WebpushNotification.Tag n \<noteq> [])
     \<or> (k = ''data'' \<and> WebpushNotification.Data n \<noteq> None)
     \<or> (k = ''timestamp'' \<and> TimestampMillis n \<noteq> None)
     \<or> (k = ''vibrate'' \<and> Vibrate n \<noteq> [])"
  unfolding WebpushNotification_standardFields_def set_append image_Un Un_iff
    fst_set_addNonEmpty fst_set_addTrue fst_set_if fst_set_case_option length_greater_0_conv
  by (rule refl)


lemma intoField_put:
  "intoField get put dec j s = DCont mismatch s' \<Longrightarrow> \<exists>v. s' = put v s"
  by (auto simp: intoField_def split: dres.splits)

lemma WebpushNotification_set_CustomData:
  assumes "name \<in> set WebpushNotification_names" "name \<noteq> ''CustomData''"
    and "WebpushNotification_set name j s = DCont False s'"
  shows "WebpushNotification.CustomData s' = WebpushNotification.CustomData s"
proof -
  have "name \<in> {''actions'', ''title'', ''body'', ''icon'', ''badge'', ''dir'', ''data'', ''image'',
      ''lang'', ''renotify'', ''requireInteraction'', ''silent'', ''tag'', ''timestamp'',
      ''vibrate''}"
    using assms(1,2) by (simp add: WebpushNotification_names_def)
  then show ?thesis
    using assms(3)
    by (elim insertE emptyE) (auto simp: WebpushNotification_set_def dest!: intoField_put)
qed

section \<open>Properties of the message codec\<close>

lemma messageTmp_set_topic:
  assumes "messageTmp_set android name j s = DCont False s'"
  shows "BareTopic s' = (if name = ''topic'' \<and> j \<noteq> JNull then jsonString j else BareTopic s)
         \<and> (name = ''topic'' \<and> j \<noteq> JNull \<longrightarrow> (\<exists>t. j = JStr t))"
proof (cases "name = ''topic''")
  case True
  with assms show ?thesis
    by (cases j) (auto simp: messageTmp_set_def intoField_def decString_def jsonString_def)
next
  case False
  with assms show ?thesis
    by (auto simp: messageTmp_set_def intoField_def split: if_splits dres.splits)
qed

lemma Message_UnmarshalJSON_topic:
  assumes "Message_UnmarshalJSON android (JObj ms) m = Value m'"
  shows "Topic m' = (case wireValue messageTmp_names ''topic'' ms of None \<Rightarrow> [] | Some j \<Rightarrow> jsonString j)"
    and "wireValue messageTmp_names ''topic'' ms = Some j \<Longrightarrow> \<exists>t. j = JStr t"
proof -
  from assms obtain tmp where
    dec: "decMembers messageTmp_names (messageTmp_set android) ms
            \<lparr>BareTopic = [], messageWrapper = m\<rparr> = DCont False tmp"
    and m': "m' = (messageWrapper tmp)\<lparr>Topic := BareTopic tmp\<rparr>"
    by (auto simp: Message_UnmarshalJSON_def unmarshal_def decStruct_def
        split: dres.splits outcome.splits if_splits)
  have step: "\<And>name j s s'. messageTmp_set android name j s = DCont False s' \<Longrightarrow>
      BareTopic s' = (if name = ''topic'' \<and> j \<noteq> JNull then jsonString j else BareTopic s)
      \<and> (name = ''topic'' \<and> j \<noteq> JNull \<longrightarrow> (\<exists>t. j = JStr t))"
    by (rule messageTmp_set_topic)
  note last = decMembers_last [where get = BareTopic and target = "''topic''"
      and conv = jsonString and good = "\<lambda>j. \<exists>t. j = JStr t", OF step dec]
  show "Topic m' = (case wireValue messageTmp_names ''topic'' ms of None \<Rightarrow> [] | Some j \<Rightarrow> jsonString j)"
    using last by (simp add: m' split: option.splits)
  show "\<exists>t. j = JStr t" if "wireValue messageTmp_names ''topic'' ms = Some j"
    using last that by blast
qed

lemma map_of_omitString:
  "map_of (omitString key v) k = (if k = key \<and> v \<noteq> [] then Some (JStr v) else None)"
  by (simp add: omitString_def)

lemma map_of_omitStringMap_other: "k \<noteq> key \<Longrightarrow> map_of (omitStringMap key m) k = None"
  by (simp add: omitStringMap_def)

lemma map_of_omitPtr_other: "k \<noteq> key \<Longrightarrow> map_of (omitPtr key enc v) k = None"
  by (simp add: omitPtr_def split: option.splits)

lemma Message_MarshalJSON_topic:
  assumes "Message_MarshalJSON android m = Value j"
  shows "\<exists>ms. j = JObj ms
           \<and> map_of ms ''topic'' =
               (if trimPrefix (Topic m) ''/topics/'' = [] then None
                else Some (JStr (trimPrefix (Topic m) ''/topics/'')))"
proof -
  from assms obtain am where
    am: "am = [] \<or> (\<exists>x. am = [(''android'', x)])"
    and j: "j = JObj
            (omitString ''topic'' (trimPrefix (Topic m) ''/topics/'')
             @ omitStringMap ''data'' (Message.Data m)
             @ omitPtr ''notification'' Notification_json (Message.Notification m)
             @ am
             @ omitPtr ''webpush'' WebpushConfig_json (Webpush m)
             @ omitPtr ''apns'' APNSConfig_json (APNS m)
             @ omitPtr ''fcm_options''
                 (\<lambda>opts. JObj (omitString ''analytics_label'' (FCMOptions.AnalyticsLabel opts)))
                 (Message.FCMOptions m)
             @ omitString ''token'' (Token m)
             @ omitString ''condition'' (Condition m))"
    by (auto simp: Message_MarshalJSON_def split: option.splits outcome.splits)
  have "map_of am ''topic'' = None"
    using am by auto
  then show ?thesis
    unfolding j
    by (simp add: map_of_append map_add_def map_of_omitString map_of_omitStringMap_other
        map_of_omitPtr_other split: option.splits)
qed

text \<open>
  Claim C6, as the code has it.  The prefix \<open>/topics/\<close> is stripped when a message is
  encoded: the member \<open>topic\<close> of the document is the topic with one leading
  \<open>/topics/\<close> removed, and it is left out when that is empty.  Decoding does not strip
  anything: the stored topic is the string that the members named \<open>topic\<close> (in any
  letter case) give the field, as it is on the wire, and the empty string when there is
  none.
\<close>

theorem topic_prefix_stripped_on_encode:
  "(Message_MarshalJSON androidEnc m = Value doc \<longrightarrow>
      (\<exists>members. doc = JObj members
         \<and> map_of members ''topic'' =
             (if trimPrefix (Topic m) ''/topics/'' = [] then None
              else Some (JStr (trimPrefix (Topic m) ''/topics/'')))))
   \<and> (Message_UnmarshalJSON androidDec (JObj ms) m0 = Value m' \<longrightarrow>
        Topic m' = (case wireValue messageTmp_names ''topic'' ms of
                      None \<Rightarrow> []
                    | Some j \<Rightarrow> jsonString j)
        \<and> (\<forall>j. wireValue messageTmp_names ''topic'' ms = Some j \<longrightarrow> (\<exists>t. j = JStr t)))
   \<and> (findName messageTmp_names k = Some ''topic'' \<longleftrightarrow> foldName k = ''TOPIC'')"
  using Message_MarshalJSON_topic [of androidEnc m doc]
    Message_UnmarshalJSON_topic [of androidDec ms m0 m'] findName_topic [of k]
  by blast

theorem topic_prefix_stripped_on_encode_witness:
  "Message_MarshalJSON (\<lambda>a. Failed JSONError) (emptyMessage\<lparr>Topic := ''/topics/news''\<rparr>)
     = Value (JObj [(''topic'', JStr ''news'')])
   \<and> map_of [(''topic'', JStr ''news'')] ''topic'' = Some (JStr ''news'')
   \<and> Message_UnmarshalJSON (\<lambda>j a. Failed JSONError) (JObj [(''topic'', JStr ''news'')]) emptyMessage
       = Value (emptyMessage\<lparr>Topic := ''news''\<rparr>)
   \<and> Topic (emptyMessage\<lparr>Topic := ''news''\<rparr>) = ''news''"
proof -
  have enc: "Message_MarshalJSON (\<lambda>a. Failed JSONError) (emptyMessage\<lparr>Topic := ''/topics/news''\<rparr>)
     = Value (JObj [(''topic'', JStr ''news'')])"
    by (simp add: Message_MarshalJSON_def emptyMessage_def omitString_def omitStringMap_def
        omitPtr_def trimPrefix_def hasPrefix_def)
  have dec: "Message_UnmarshalJSON (\<lambda>j a. Failed JSONError) (JObj [(''topic'', JStr ''news'')])
       emptyMessage = Value (emptyMessage\<lparr>Topic := ''news''\<rparr>)"
    by (simp add: Message_UnmarshalJSON_def dec_simps messageTmp_names_def messageTmp_set_def
        emptyMessage_def)
  from topic_prefix_stripped_on_encode
    [of "\<lambda>a. Failed JSONError" "emptyMessage\<lparr>Topic := ''/topics/news''\<rparr>"
        "JObj [(''topic'', JStr ''news'')]" "\<lambda>j a. Failed JSONError"
        "[(''topic'', JStr ''news'')]" emptyMessage "emptyMessage\<lparr>Topic := ''news''\<rparr>"]
    enc dec
  show ?thesis by simp
qed

text \<open>
  Decoding a document whose topic carries the prefix stores the topic with the prefix: the
  stored value is not in bare form.
\<close>

theorem topic_prefix_kept_on_decode_counterexample:
  "Message_UnmarshalJSON (\<lambda>j a. Failed JSONError) (JObj [(''topic'', JStr ''/topics/news'')])
     emptyMessage = Value (emptyMessage\<lparr>Topic := ''/topics/news''\<rparr>)
   \<and> hasPrefix ''/topics/news'' ''/topics/''"
  by (simp add: Message_UnmarshalJSON_def dec_simps messageTmp_names_def messageTmp_set_def
      emptyMessage_def hasPrefix_def)

section \<open>Properties of the extensible records\<close>

lemma standard_key_is_field:
  assumes "k \<in> fst ` set (WebpushNotification_standardFields n)"
  shows "findName WebpushNotification_names k = Some k \<and> k \<noteq> ''CustomData''"
  using assms unfolding WebpushNotification_standardFields_keys
  by (elim disjE conjE) (simp_all add: findName_def WebpushNotification_names_def)

lemma WebpushNotification_UnmarshalJSON_parts:
  assumes "WebpushNotification_UnmarshalJSON (JObj ms) n = Value n'"
  obtains n1 where
    "decMembers WebpushNotification_names WebpushNotification_set ms n = DCont False n1"
    "n' = (let rest = deleteKeys (map fst (WebpushNotification_standardFields n1))
                        (fold (\<lambda>(k, v). AList.update k v) ms [])
           in if length rest > 0 then n1\<lparr>WebpushNotification.CustomData := rest\<rparr> else n1)"
proof (cases "unmarshal (decStruct WebpushNotification_names WebpushNotification_set) (JObj ms) n")
  case Panic
  with assms show ?thesis
    by (simp add: WebpushNotification_UnmarshalJSON_def)
next
  case (Failed err)
  with assms show ?thesis
    by (simp add: WebpushNotification_UnmarshalJSON_def)
next
  case (Value n1)
  then have "decMembers WebpushNotification_names WebpushNotification_set ms n = DCont False n1"
    by (simp add: unmarshal_Value decStruct_def)
  moreover have "n' = (let rest = deleteKeys (map fst (WebpushNotification_standardFields n1))
                        (fold (\<lambda>(k, v). AList.update k v) ms [])
           in if length rest > 0 then n1\<lparr>WebpushNotification.CustomData := rest\<rparr> else n1)"
    using assms Value
    by (simp add: WebpushNotification_UnmarshalJSON_def unmarshal_decAnyMap Let_def
        split: if_splits)
  ultimately show ?thesis
    by (rule that)
qed

lemma WebpushNotification_UnmarshalJSON_CustomData:
  assumes "WebpushNotification_UnmarshalJSON (JObj ms) n = Value n'"
  shows "if \<exists>k \<in> fst ` set ms. k \<notin> fst ` set (WebpushNotification_standardFields n')
         then distinct (map fst (WebpushNotification.CustomData n'))
              \<and> map_of (WebpushNotification.CustomData n')
                  = (\<lambda>k. if k \<in> fst ` set (WebpushNotification_standardFields n') then None
                         else map_of (rev ms) k)
         else WebpushNotification.CustomData n' = WebpushNotification.CustomData n"
proof -
  from assms obtain n1 where
    dec: "decMembers WebpushNotification_names WebpushNotification_set ms n = DCont False n1"
    and n': "n' = (let rest = deleteKeys (map fst (WebpushNotification_standardFields n1))
                        (fold (\<lambda>(k, v). AList.update k v) ms [])
           in if length rest > 0 then n1\<lparr>WebpushNotification.CustomData := rest\<rparr> else n1)"
    by (rule WebpushNotification_UnmarshalJSON_parts)
  define al where "al = fold (\<lambda>(k, v). AList.update k v) ms []"
  define ks where "ks = map fst (WebpushNotification_standardFields n1)"
  define rest where "rest = deleteKeys ks al"
  have n'': "n' = (if rest \<noteq> [] then n1\<lparr>WebpushNotification.CustomData := rest\<rparr> else n1)"
    using n' by (simp add: Let_def rest_def ks_def al_def)
  have keys: "fst ` set (WebpushNotification_standardFields n') = set ks"
    by (simp add: n'' ks_def)
  have dom: "fst ` set al = fst ` set ms"
    by (simp add: al_def fst_set_fold_update)
  have rest_filter: "rest = filter (\<lambda>(k, v). k \<notin> set ks) al"
    by (simp add: rest_def deleteKeys_filter)
  have nonempty: "rest \<noteq> [] \<longleftrightarrow> (\<exists>k \<in> fst ` set ms. k \<notin> set ks)"
  proof -
    have "rest \<noteq> [] \<longleftrightarrow> (\<exists>x \<in> set al. fst x \<notin> set ks)"
      by (simp add: rest_filter filter_empty_conv split_beta)
    also have "\<dots> \<longleftrightarrow> (\<exists>k \<in> fst ` set al. k \<notin> set ks)"
      by auto
    finally show ?thesis by (simp add: dom)
  qed
  show ?thesis
  proof (cases "rest \<noteq> []")
    case True
    then have cd: "WebpushNotification.CustomData n' = rest"
      by (simp add: n'')
    have "distinct (map fst al)"
      unfolding al_def by (rule distinct_fold_update) simp
    then have d: "distinct (map fst rest)"
      by (simp add: rest_filter distinct_map_filter)
    have "map_of al = map_of (rev ms)"
      by (simp add: al_def map_of_fold_update)
    then have m: "map_of rest = (\<lambda>k. if k \<in> set ks then None else map_of (rev ms) k)"
      by (simp add: fun_eq_iff rest_def map_of_deleteKeys)
    show ?thesis
      using True d m by (simp add: keys cd nonempty)
  next
    case False
    then have same: "n' = n1"
      by (simp add: n'')
    have all: "\<forall>k \<in> fst ` set ms. k \<in> set ks"
      using False nonempty by blast
    have none: "findName WebpushNotification_names k \<noteq> Some ''CustomData''"
      if "(k, j) \<in> set ms" for k j
    proof -
      have "k \<in> fst ` set (WebpushNotification_standardFields n1)"
      proof -
        have "k \<in> fst ` set ms"
          using that by force
        with all have "k \<in> set ks"
          by blast
        then show ?thesis
          by (simp add: ks_def)
      qed
      from standard_key_is_field [OF this] show ?thesis by simp
    qed
    have "WebpushNotification.CustomData n1 = WebpushNotification.CustomData n"
      by (rule decMembers_unchanged [where get = WebpushNotification.CustomData
            and target = "''CustomData''", OF WebpushNotification_set_CustomData dec none])
    moreover have "fst ` set (WebpushNotification_standardFields n1) = set ks"
      by (simp add: ks_def)
    ultimately show ?thesis
      using False nonempty by (simp add: same)
  qed
qed

text \<open>
  Claim C3, as the code has it.  When a web-push notification is decoded from a wire
  object, the keys taken out of the generic map are the keys of \<^verbatim>\<open>standardFields()\<close>
  of the decoded value: the standard fields that are not empty in it.  If a member of the
  object is left, the custom data has one entry for each name left, with the value of the
  last member of that name; otherwise the custom data stays as it was.  A standard key
  whose decoded value is empty (an empty string, a flag that is false, an empty list, a
  \<open>null\<close>) is not taken out.
\<close>

theorem webpush_custom_data_on_decode:
  assumes "WebpushNotification_UnmarshalJSON (JObj ms) n = Value n'"
  shows "(if \<exists>k \<in> fst ` set ms. k \<notin> fst ` set (WebpushNotification_standardFields n')
          then distinct (map fst (WebpushNotification.CustomData n'))
               \<and> map_of (WebpushNotification.CustomData n')
                   = (\<lambda>k. if k \<in> fst ` set (WebpushNotification_standardFields n') then None
                          else map_of (rev ms) k)
          else WebpushNotification.CustomData n' = WebpushNotification.CustomData n)
     \<and> (k \<in> fst ` set (WebpushNotification_standardFields n') \<longleftrightarrow>
           (k = ''actions'' \<and> Actions n' \<noteq> [])
           \<or> (k = ''title'' \<and> WebpushNotification.Title n' \<noteq> [])
           \<or> (k = ''body'' \<and> WebpushNotification.Body n' \<noteq> [])
           \<or> (k = ''icon'' \<and> WebpushNotification.Icon n' \<noteq> [])
           \<or> (k = ''badge'' \<and> WebpushNotification.Badge n' \<noteq> [])
           \<or> (k = ''dir'' \<and> Direction n' \<noteq> [])
           \<or> (k = ''image'' \<and> Image n' \<noteq> [])
           \<or> (k = ''lang'' \<and> Language n' \<noteq> [])
           \<or> (k = ''renotify'' \<and> Renotify n')
           \<or> (k = ''requireInteraction'' \<and> RequireInteraction n')
           \<or> (k = ''silent'' \<and> Silent n')
           \<or> (k = ''tag'' \<and> WebpushNotification.Tag n' \<noteq> [])
           \<or> (k = ''data'' \<and> WebpushNotification.Data n' \<noteq> None)
           \<or> (k = ''timestamp'' \<and> TimestampMillis n' \<noteq> None)
           \<or> (k = ''vibrate'' \<and> Vibrate n' \<noteq> []))"
  using WebpushNotification_UnmarshalJSON_CustomData [OF assms]
    WebpushNotification_standardFields_keys [of k n']
  by (rule conjI)

lemmas webpush_eval = WebpushNotification_UnmarshalJSON_def dec_simps WebpushNotification_names_def
  WebpushNotification_set_def WebpushNotification_standardFields_def emptyWebpushNotification_def
  AList.delete_eq

theorem webpush_custom_data_on_decode_witness:
  "WebpushNotification_UnmarshalJSON (JObj [(''title'', JStr ''T''), (''foo'', JStr ''bar'')])
     emptyWebpushNotification
     = Value (emptyWebpushNotification\<lparr>WebpushNotification.Title := ''T'',
         WebpushNotification.CustomData := [(''foo'', JStr ''bar'')]\<rparr>)
   \<and> map_of (WebpushNotification.CustomData
         (emptyWebpushNotification\<lparr>WebpushNotification.Title := ''T'',
            WebpushNotification.CustomData := [(''foo'', JStr ''bar'')]\<rparr>)) ''title'' = None"
proof -
  have dec: "WebpushNotification_UnmarshalJSON (JObj [(''title'', JStr ''T''), (''foo'', JStr ''bar'')])
     emptyWebpushNotification
     = Value (emptyWebpushNotification\<lparr>WebpushNotification.Title := ''T'',
         WebpushNotification.CustomData := [(''foo'', JStr ''bar'')]\<rparr>)"
    by (simp add: webpush_eval)
  from webpush_custom_data_on_decode [OF dec, of "''title''"] dec show ?thesis
    by simp
qed

text \<open>
  The members \<open>title\<close> with the empty string and \<open>renotify\<close> with \<open>false\<close> are keys
  of the standard-field set, and both end up in the custom data.
\<close>

theorem webpush_empty_standard_key_counterexample:
  "WebpushNotification_UnmarshalJSON (JObj [(''title'', JStr []), (''renotify'', JBool False)])
     emptyWebpushNotification
     = Value (emptyWebpushNotification\<lparr>WebpushNotification.CustomData :=
         [(''title'', JStr []), (''renotify'', JBool False)]\<rparr>)"
  by (simp add: webpush_eval)

lemma apsTmp_set_ContentAvailableInt:
  assumes "apsTmp_set name j s = DCont False s'"
  shows "ContentAvailableInt s'
           = (if name = ''content-available'' \<and> j \<noteq> JNull then jsonInt j else ContentAvailableInt s)
         \<and> (name = ''content-available'' \<and> j \<noteq> JNull \<longrightarrow>
              (\<exists>n. j = JInt n \<and> - (2 ^ 63) \<le> n \<and> n < 2 ^ 63))"
proof (cases "name = ''content-available''")
  case True
  with assms show ?thesis
    by (cases j) (auto simp: apsTmp_set_def intoField_def decInt_def jsonInt_def split: if_splits)
next
  case False
  with assms show ?thesis
    by (auto simp: apsTmp_set_def dest!: intoField_put split: if_splits)
qed

lemma Aps_alert_ContentAvailable:
  "Aps_alert obj a = Value a' \<Longrightarrow> ContentAvailable a' = ContentAvailable a"
  by (auto simp: Aps_alert_def split: option.splits outcome.splits)

lemma Aps_sound_ContentAvailable:
  "Aps_sound obj a = Value a' \<Longrightarrow> ContentAvailable a' = ContentAvailable a"
  by (auto simp: Aps_sound_def split: option.splits outcome.splits)

lemma word_of_int_eq_1:
  assumes "- (2 ^ 63) \<le> n" "n < 2 ^ 63"
  shows "(word_of_int n :: int64) = 1 \<longleftrightarrow> n = 1"
proof
  assume "(word_of_int n :: int64) = 1"
  then have "sint (word_of_int n :: int64) = sint (1 :: int64)"
    by simp
  moreover have "sint (word_of_int n :: int64) = n"
    using assms by (simp add: sint_sbintrunc' signed_take_bit_int_eq_self)
  ultimately show "n = 1" by simp
next
  assume "n = 1"
  then show "(word_of_int n :: int64) = 1" by simp
qed

lemma Aps_UnmarshalJSON_flag:
  assumes "Aps_UnmarshalJSON b a = Value a'"
  obtains tmp where
    "unmarshal (decStruct apsTmp_names apsTmp_set) b
       \<lparr>AlertObject = None, SoundObject = None, ContentAvailableInt = 0,
        MutableContentInt = 0, apsWrapper = a\<rparr> = Value tmp"
    "ContentAvailable a' = (ContentAvailableInt tmp = 1)"
proof (cases "unmarshal (decStruct apsTmp_names apsTmp_set) b
       \<lparr>AlertObject = None, SoundObject = None, ContentAvailableInt = 0,
        MutableContentInt = 0, apsWrapper = a\<rparr>")
  case Panic
  with assms show ?thesis by (simp add: Aps_UnmarshalJSON_def)
next
  case (Failed err)
  with assms show ?thesis by (simp add: Aps_UnmarshalJSON_def)
next
  case (Value tmp)
  define a0 where "a0 = (apsWrapper tmp)\<lparr>ContentAvailable := (ContentAvailableInt tmp = 1),
                               MutableContent := (MutableContentInt tmp = 1)\<rparr>"
  from assms Value obtain a1 a2 where
    a1: "Aps_alert (AlertObject tmp) a0 = Value a1"
    and a2: "Aps_sound (SoundObject tmp) a1 = Value a2"
    and a': "ContentAvailable a' = ContentAvailable a2"
    by (auto simp: Aps_UnmarshalJSON_def a0_def Let_def split: outcome.splits if_splits)
  have "ContentAvailable a' = ContentAvailable a0"
    using a' Aps_alert_ContentAvailable [OF a1] Aps_sound_ContentAvailable [OF a2] by simp
  then have "ContentAvailable a' = (ContentAvailableInt tmp = 1)"
    by (simp add: a0_def)
  with Value show ?thesis by (rule that)
qed

lemma Aps_UnmarshalJSON_ContentAvailable:
  assumes "Aps_UnmarshalJSON (JObj ms) a = Value a'"
  shows "ContentAvailable a' = (wireValue apsTmp_names ''content-available'' ms = Some (JInt 1))"
proof -
  from assms obtain tmp where
    u: "unmarshal (decStruct apsTmp_names apsTmp_set) (JObj ms)
       \<lparr>AlertObject = None, SoundObject = None, ContentAvailableInt = 0,
        MutableContentInt = 0, apsWrapper = a\<rparr> = Value tmp"
    and flag: "ContentAvailable a' = (ContentAvailableInt tmp = 1)"
    by (rule Aps_UnmarshalJSON_flag)
  from u have dec: "decMembers apsTmp_names apsTmp_set ms
       \<lparr>AlertObject = None, SoundObject = None, ContentAvailableInt = 0,
        MutableContentInt = 0, apsWrapper = a\<rparr> = DCont False tmp"
    by (simp add: unmarshal_Value decStruct_def)
  have step: "\<And>name j s s'. apsTmp_set name j s = DCont False s' \<Longrightarrow>
      ContentAvailableInt s'
           = (if name = ''content-available'' \<and> j \<noteq> JNull then jsonInt j else ContentAvailableInt s)
         \<and> (name = ''content-available'' \<and> j \<noteq> JNull \<longrightarrow>
              (\<exists>n. j = JInt n \<and> - (2 ^ 63) \<le> n \<and> n < 2 ^ 63))"
    by (rule apsTmp_set_ContentAvailableInt)
  note last = decMembers_last [where get = ContentAvailableInt and target = "''content-available''"
      and conv = jsonInt and good = "\<lambda>j. \<exists>n. j = JInt n \<and> - (2 ^ 63) \<le> n \<and> n < 2 ^ 63",
      OF step dec]
  show ?thesis
  proof (cases "wireValue apsTmp_names ''content-available'' ms")
    case None
    then show ?thesis using last flag by simp
  next
    case (Some j)
    with last obtain n where j: "j = JInt n" and range: "- (2 ^ 63) \<le> n" "n < 2 ^ 63"
      by blast
    have "ContentAvailableInt tmp = word_of_int n"
      using last Some by (simp add: j jsonInt_def)
    then show ?thesis
      using flag Some word_of_int_eq_1 [OF range] by (simp add: j)
  qed
qed

lemma Aps_UnmarshalJSON_null:
  assumes "Aps_UnmarshalJSON JNull a = Value a'"
  shows "\<not> ContentAvailable a'"
proof -
  from assms obtain tmp where
    u: "unmarshal (decStruct apsTmp_names apsTmp_set) JNull
       \<lparr>AlertObject = None, SoundObject = None, ContentAvailableInt = 0,
        MutableContentInt = 0, apsWrapper = a\<rparr> = Value tmp"
    and flag: "ContentAvailable a' = (ContentAvailableInt tmp = 1)"
    by (rule Aps_UnmarshalJSON_flag)
  from u have "ContentAvailableInt tmp = 0"
    by (auto simp: unmarshal_def decStruct_def)
  with flag show ?thesis by simp
qed

lemma map_of_Aps_standardFields_flag:
  "map_of (Aps_standardFields a) ''content-available''
     = (if ContentAvailable a then Some (JInt 1) else None)"
  by (simp add: Aps_standardFields_def map_of_append map_add_def split: option.splits)

lemma Aps_MarshalJSON_flag:
  "\<exists>ms. Aps_MarshalJSON a = JObj ms
     \<and> map_of ms ''content-available''
         = (case map_of (Aps.CustomData a) ''content-available'' of
              Some v \<Rightarrow> Some v
            | None \<Rightarrow> if ContentAvailable a then Some (JInt 1) else None)"
proof -
  obtain ms where ms: "Aps_MarshalJSON a = JObj ms"
    by (simp add: Aps_MarshalJSON_def marshalMap_def)
  then have "map_of ms = map_of (Aps_standardFields a) ++ map_of (Aps.CustomData a)"
    unfolding Aps_MarshalJSON_def by (simp add: map_of_marshalMap merge_conv')
  then show ?thesis
    using ms by (simp add: map_add_def map_of_Aps_standardFields_flag split: option.splits)
qed

lemma Aps_UnmarshalJSON_zero_example: "Aps_UnmarshalJSON (JObj [(''content-available'', JInt 0)]) emptyAps
   = Value (emptyAps\<lparr>Aps.CustomData := [(''content-available'', JInt 0)]\<rparr>)"
  by (simp add: Aps_UnmarshalJSON_def dec_simps apsTmp_names_def apsTmp_set_def Aps_alert_def
      Aps_sound_def Aps_standardFields_def emptyAps_def AList.delete_eq)

lemma Aps_UnmarshalJSON_fold_example: "Aps_UnmarshalJSON (JObj [(''Content-Available'', JInt 1), (''alert'', JStr ''hi'')]) emptyAps
   = Value (emptyAps\<lparr>ContentAvailable := True, AlertString := ''hi'',
       Aps.CustomData := [(''Content-Available'', JInt 1)]\<rparr>)"
  by (simp add: Aps_UnmarshalJSON_def dec_simps apsTmp_names_def apsTmp_set_def Aps_alert_def
      Aps_sound_def Aps_standardFields_def emptyAps_def AList.delete_eq ApsAlert_dec_def)

lemma Aps_UnmarshalJSON_mismatch_example: "Aps_UnmarshalJSON (JObj [(''content-available'', JBool True)]) emptyAps = Failed JSONError"
  by (simp add: Aps_UnmarshalJSON_def dec_simps apsTmp_names_def apsTmp_set_def Aps_alert_def
      Aps_sound_def Aps_standardFields_def emptyAps_def AList.delete_eq)

lemma Aps_MarshalJSON_custom_example: "Aps_MarshalJSON (emptyAps\<lparr>Aps.CustomData := [(''content-available'', JInt 0)]\<rparr>) = JObj [(''content-available'', JInt 0)]"
  by (simp add: Aps_MarshalJSON_def Aps_standardFields_def emptyAps_def marshalMap_def)

text \<open>
  Claim C4.  The standard fields of an \<^verbatim>\<open>Aps\<close> have the key \<open>content-available\<close>
  with the integer 1 when the flag is set and do not have the key when it is not; the
  encoded object has this entry unless the custom data has an entry of the same key, which
  is laid over it.  A decoding that succeeds sets the flag exactly when the value that the
  members named \<open>content-available\<close> (in any letter case) give the field is the integer
  1; with any other integer, with \<open>null\<close> or with no such member the flag is false.
\<close>

theorem content_available_as_int:
  "map_of (Aps_standardFields a) ''content-available''
     = (if ContentAvailable a then Some (JInt 1) else None)
   \<and> (\<exists>members. Aps_MarshalJSON a = JObj members
         \<and> map_of members ''content-available''
             = (case map_of (Aps.CustomData a) ''content-available'' of
                  Some v \<Rightarrow> Some v
                | None \<Rightarrow> if ContentAvailable a then Some (JInt 1) else None))
   \<and> (Aps_UnmarshalJSON (JObj ms) a0 = Value a' \<longrightarrow>
        ContentAvailable a' = (wireValue apsTmp_names ''content-available'' ms = Some (JInt 1)))
   \<and> (Aps_UnmarshalJSON JNull a0 = Value a'' \<longrightarrow> \<not> ContentAvailable a'')
   \<and> (findName apsTmp_names k = Some ''content-available''
        \<longleftrightarrow> foldName k = ''CONTENT-AVAILABLE'')"
  using map_of_Aps_standardFields_flag [of a] Aps_MarshalJSON_flag [of a]
    Aps_UnmarshalJSON_ContentAvailable [of ms a0 a'] Aps_UnmarshalJSON_null [of a0 a'']
    findName_content_available [of k]
  by blast

lemmas aps_eval = Aps_UnmarshalJSON_def dec_simps apsTmp_names_def apsTmp_set_def Aps_alert_def
  Aps_sound_def Aps_standardFields_def emptyAps_def AList.delete_eq

theorem content_available_as_int_witness:
  "Aps_UnmarshalJSON (JObj [(''content-available'', JInt 1)]) emptyAps
     = Value (emptyAps\<lparr>ContentAvailable := True\<rparr>)
   \<and> ContentAvailable (emptyAps\<lparr>ContentAvailable := True\<rparr>)
   \<and> wireValue apsTmp_names ''content-available'' [(''content-available'', JInt 1)] = Some (JInt 1)
   \<and> Aps_UnmarshalJSON JNull emptyAps = Value emptyAps
   \<and> \<not> ContentAvailable emptyAps"
proof -
  have one: "Aps_UnmarshalJSON (JObj [(''content-available'', JInt 1)]) emptyAps
     = Value (emptyAps\<lparr>ContentAvailable := True\<rparr>)"
    by (simp add: aps_eval)
  have null: "Aps_UnmarshalJSON JNull emptyAps = Value emptyAps"
    by (simp add: aps_eval)
  from content_available_as_int
    [of emptyAps "[(''content-available'', JInt 1)]" emptyAps
        "emptyAps\<lparr>ContentAvailable := True\<rparr>" emptyAps "''content-available''"]
    one null
  show ?thesis by (simp add: emptyAps_def findName_def apsTmp_names_def upperByte_def)
qed

end
